theory Spec2Isabelle
  imports Complex_Main "HOL-Library.Monad_Syntax" "HOL-Library.Multiset"
begin

unbundle bit_operations_syntax

section \<open>Rasters at one pixel\<close>

text \<open>
  The script \<^verbatim>\<open>candidate_fire_vector_export_code.js\<close> builds Earth Engine images and
  image collections. Every operation it uses works pixel by pixel, so the development
  follows one arbitrary pixel through the script: an image is its list of named bands
  with the value each band has at that pixel, a masked ("no data") value being
  \<open>Masked\<close>. Reflectances and indices are real numbers; the rounding of the engine's
  single and double precision is not part of the model. A call the engine would reject
  (a band that is not there, band lists that do not fit) is \<open>None\<close>.
\<close>

datatype pixel = Masked | Val real

type_synonym date = "int \<times> nat \<times> nat"  \<comment> \<open>year, month, day\<close>

record image =
  bands :: "(string \<times> pixel) list"
  time_start :: "date option"  \<comment> \<open>the property \<^verbatim>\<open>system:time_start\<close>\<close>
  inBounds :: bool  \<comment> \<open>the footprint meets the ROI\<close>

definition bandNames :: "image \<Rightarrow> string list" where
  "bandNames img = map fst (bands img)"

definition band :: "image \<Rightarrow> string \<Rightarrow> pixel option" where
  "band img n = map_of (bands img) n"

fun lift1 :: "(real \<Rightarrow> real) \<Rightarrow> pixel \<Rightarrow> pixel" where
  "lift1 f (Val a) = Val (f a)"
| "lift1 f Masked = Masked"

fun lift2 :: "(real \<Rightarrow> real \<Rightarrow> real) \<Rightarrow> pixel \<Rightarrow> pixel \<Rightarrow> pixel" where
  "lift2 f (Val a) (Val b) = Val (f a b)"
| "lift2 f _ _ = Masked"

definition of_bool_real :: "bool \<Rightarrow> real" where
  "of_bool_real c = (if c then 1 else 0)"

text \<open>
  \<^verbatim>\<open>toInt\<close> / \<^verbatim>\<open>int\<close>: the cast to a signed 32-bit integer drops the fraction (towards
  zero) and stops at the ends of the range.
\<close>

definition toInt :: "real \<Rightarrow> int" where
  "toInt x = max (- (2 ^ 31)) (min (2 ^ 31 - 1) (if 0 \<le> x then \<lfloor>x\<rfloor> else \<lceil>x\<rceil>))"

definition mapBands :: "(pixel \<Rightarrow> pixel) \<Rightarrow> image \<Rightarrow> image" where
  "mapBands f img = img\<lparr>bands := map (\<lambda>(n, v). (n, f v)) (bands img)\<rparr>"

definition img_toInt :: "image \<Rightarrow> image" where
  "img_toInt img = mapBands (lift1 (\<lambda>x. of_int (toInt x))) img"

text \<open>\<^verbatim>\<open>toFloat\<close> rounds to single precision; over the reals it changes nothing.\<close>

definition toFloat :: "image \<Rightarrow> image" where
  "toFloat img = img"

text \<open>\<^verbatim>\<open>select\<close> keeps the named bands in the order asked for; a name that matches no
  band is an error. The two-list form renames the selected bands.\<close>

fun pick :: "(string \<times> pixel) list \<Rightarrow> string list \<Rightarrow> (string \<times> pixel) list option" where
  "pick bs [] = Some []"
| "pick bs (n # ns) =
     (case map_of bs n of
        None \<Rightarrow> None
      | Some v \<Rightarrow> (case pick bs ns of None \<Rightarrow> None | Some r \<Rightarrow> Some ((n, v) # r)))"

definition select :: "string list \<Rightarrow> image \<Rightarrow> image option" where
  "select ns img = map_option (\<lambda>bs. img\<lparr>bands := bs\<rparr>) (pick (bands img) ns)"

definition rename :: "string list \<Rightarrow> image \<Rightarrow> image option" where
  "rename ns img =
     (if length ns = length (bands img)
      then Some (img\<lparr>bands := zip ns (map snd (bands img))\<rparr>)
      else None)"

definition select2 :: "string list \<Rightarrow> string list \<Rightarrow> image \<Rightarrow> image option" where
  "select2 ns new img = do { s \<leftarrow> select ns img; rename new s }"

text \<open>\<^verbatim>\<open>select([0], [name])\<close>: the first band, renamed.\<close>

definition selectFirst :: "string \<Rightarrow> image \<Rightarrow> image option" where
  "selectFirst new img =
     (case bands img of [] \<Rightarrow> None | (n, v) # _ \<Rightarrow> Some (img\<lparr>bands := [(new, v)]\<rparr>))"

text \<open>\<^verbatim>\<open>a.addBands(b)\<close>: the bands of \<open>a\<close>, then those of \<open>b\<close>; metadata of \<open>a\<close>. Every
  use in the script adds bands under names the first image does not have; a lookup by
  name finds the first image's band, as the engine's renaming of a duplicate would.\<close>

definition addBands :: "image \<Rightarrow> image \<Rightarrow> image" where
  "addBands a b = a\<lparr>bands := bands a @ bands b\<rparr>"

definition copyProperties :: "image \<Rightarrow> image \<Rightarrow> image" where
  "copyProperties img src = img\<lparr>time_start := time_start src\<rparr>"

text \<open>\<^verbatim>\<open>img.updateMask(m)\<close>: a pixel stays valid where the mask band is valid and not
  zero; a one-band mask applies to every band.\<close>

fun keeps :: "pixel \<Rightarrow> bool" where
  "keeps (Val m) = (m \<noteq> 0)"
| "keeps Masked = False"

definition updateMask :: "image \<Rightarrow> pixel \<Rightarrow> image" where
  "updateMask img m = mapBands (\<lambda>v. if keeps m then v else Masked) img"

section \<open>Quality masks\<close>

definition bitwiseAnd :: "pixel \<Rightarrow> int \<Rightarrow> pixel" where
  "bitwiseAnd q m = lift1 (\<lambda>x. of_int (\<lfloor>x\<rfloor> AND m)) q"

definition px_or :: "pixel \<Rightarrow> pixel \<Rightarrow> pixel" where
  "px_or a b = lift2 (\<lambda>x y. of_bool_real (x \<noteq> 0 \<or> y \<noteq> 0)) a b"

definition px_not :: "pixel \<Rightarrow> pixel" where
  "px_not a = lift1 (\<lambda>x. of_bool_real (x = 0)) a"

definition px_add :: "pixel \<Rightarrow> pixel \<Rightarrow> pixel" where
  "px_add a b = lift2 (+) a b"

definition px_gte :: "pixel \<Rightarrow> real \<Rightarrow> pixel" where
  "px_gte a c = lift1 (\<lambda>x. of_bool_real (c \<le> x)) a"

text \<open>\<^verbatim>\<open>interpolate(xs, ys, 'clamp')\<close>: the piecewise-linear function through the points
  \<open>(xs, ys)\<close>; outside them the value at the nearest end.\<close>

fun interp :: "real list \<Rightarrow> real list \<Rightarrow> real \<Rightarrow> real" where
  "interp (x0 # x1 # xs) (y0 # y1 # ys) v =
     (if v \<le> x0 then y0
      else if v \<le> x1 then y0 + (v - x0) * (y1 - y0) / (x1 - x0)
      else interp (x1 # xs) (y1 # ys) v)"
| "interp _ (y0 # _) v = y0"
| "interp _ [] v = 0"

definition interpolate :: "real list \<Rightarrow> real list \<Rightarrow> pixel \<Rightarrow> pixel" where
  "interpolate xs ys p = lift1 (interp xs ys) p"

definition px_int :: "pixel \<Rightarrow> pixel" where
  "px_int p = lift1 (\<lambda>x. of_int (toInt x)) p"

definition allVariables :: "string list" where
  "allVariables = [''nbr'', ''nbr2'', ''ndvi'', ''ndmi'', ''ndwi'', ''evi'', ''mirbi'',
                   ''bai'', ''baims'', ''csi'', ''bsi'', ''msavi'', ''tcb'', ''tcg'', ''tcw'']"

definition dilatedCloud :: int where "dilatedCloud = push_bit 1 1"
definition cloud :: int where "cloud = push_bit 3 1"
definition cloudShadow :: int where "cloudShadow = push_bit 4 1"
definition water :: int where "water = push_bit 7 1"
definition snow :: int where "snow = push_bit 5 1"

definition cloudConfidence :: "pixel \<Rightarrow> pixel" where
  "cloudConfidence quality =
     px_int (interpolate [0, 129, 257, 384] [0, 1, 2, 3]
       (px_add (bitwiseAnd quality 128) (bitwiseAnd quality 256)))"

definition cloudConfidenceMedHigh :: "pixel \<Rightarrow> pixel" where
  "cloudConfidenceMedHigh quality = px_gte (cloudConfidence quality) 2"

text \<open>The local \<^verbatim>\<open>mask\<close> of \<^verbatim>\<open>lsMaskNew\<close>: the cloud-confidence term is commented out
  there.\<close>

definition lsMaskNew_mask :: "pixel \<Rightarrow> pixel" where
  "lsMaskNew_mask quality =
     px_or (px_or (px_or (px_or (bitwiseAnd quality cloud) (bitwiseAnd quality dilatedCloud))
       (bitwiseAnd quality cloudShadow)) (bitwiseAnd quality water)) (bitwiseAnd quality snow)"

definition lsMaskNew :: "image \<Rightarrow> image option" where
  "lsMaskNew lsImg = do {
     quality \<leftarrow> band lsImg ''qa_pixel'';
     let clear = px_not (lsMaskNew_mask quality);
     r \<leftarrow> select allVariables (updateMask lsImg clear);
     Some (copyProperties r lsImg)
   }"

definition SLC_mask :: "pixel \<Rightarrow> pixel" where
  "SLC_mask quality =
     px_or (px_or (px_or (px_or (px_or (bitwiseAnd quality cloud) (bitwiseAnd quality dilatedCloud))
       (bitwiseAnd quality cloudShadow)) (bitwiseAnd quality water)) (bitwiseAnd quality snow))
       (cloudConfidenceMedHigh quality)"

definition SLC_lsMask :: "image \<Rightarrow> image option" where
  "SLC_lsMask lsImg = do {
     quality \<leftarrow> band lsImg ''qa_pixel'';
     let clear = px_not (SLC_mask quality);
     r \<leftarrow> select allVariables (updateMask lsImg clear);
     Some (copyProperties r lsImg)
   }"

section \<open>Expressions\<close>

text \<open>
  The strings given to \<^verbatim>\<open>image.expression\<close>, as syntax trees: \<open>B n\<close> is \<^verbatim>\<open>b('n')\<close>, a
  band of the image itself; \<open>V x\<close> is a variable of the map passed along, bound to an
  image whose first band is used. An operation on a masked value is masked. Division is
  the engine's, which gives 0 for a division by 0. The square root of a negative number
  (not a number in the source's floating point) is no value here: \<open>Masked\<close>.
\<close>

datatype expr =
    B string | V string | N real
  | Add expr expr | Sub expr expr | Mul expr expr | Div expr expr
  | Pow expr nat | Sqrt expr | Abs expr | Lt expr expr | Cond expr expr expr

fun px_sqrt :: "pixel \<Rightarrow> pixel" where
  "px_sqrt (Val x) = (if x < 0 then Masked else Val (sqrt x))"
| "px_sqrt Masked = Masked"

fun px_cond :: "pixel \<Rightarrow> pixel \<Rightarrow> pixel \<Rightarrow> pixel" where
  "px_cond (Val c) (Val x) (Val y) = Val (if c \<noteq> 0 then x else y)"
| "px_cond _ _ _ = Masked"

definition firstBand :: "image \<Rightarrow> pixel option" where
  "firstBand img = (case bands img of [] \<Rightarrow> None | (n, v) # _ \<Rightarrow> Some v)"

fun eval :: "image \<Rightarrow> (string \<times> image) list \<Rightarrow> expr \<Rightarrow> pixel option" where
  "eval img vars (B n) = band img n"
| "eval img vars (V x) = (case map_of vars x of None \<Rightarrow> None | Some i \<Rightarrow> firstBand i)"
| "eval img vars (N c) = Some (Val c)"
| "eval img vars (Add a b) =
     do { x \<leftarrow> eval img vars a; y \<leftarrow> eval img vars b; Some (lift2 (+) x y) }"
| "eval img vars (Sub a b) =
     do { x \<leftarrow> eval img vars a; y \<leftarrow> eval img vars b; Some (lift2 (-) x y) }"
| "eval img vars (Mul a b) =
     do { x \<leftarrow> eval img vars a; y \<leftarrow> eval img vars b; Some (lift2 (*) x y) }"
| "eval img vars (Div a b) =
     do { x \<leftarrow> eval img vars a; y \<leftarrow> eval img vars b; Some (lift2 (/) x y) }"
| "eval img vars (Pow a k) = do { x \<leftarrow> eval img vars a; Some (lift1 (\<lambda>r. r ^ k) x) }"
| "eval img vars (Sqrt a) = do { x \<leftarrow> eval img vars a; Some (px_sqrt x) }"
| "eval img vars (Abs a) = do { x \<leftarrow> eval img vars a; Some (lift1 abs x) }"
| "eval img vars (Lt a b) =
     do { x \<leftarrow> eval img vars a; y \<leftarrow> eval img vars b;
          Some (lift2 (\<lambda>r s. of_bool_real (r < s)) x y) }"
| "eval img vars (Cond c a b) =
     do { t \<leftarrow> eval img vars c; x \<leftarrow> eval img vars a; y \<leftarrow> eval img vars b;
          Some (px_cond t x y) }"

text \<open>The result of an expression has one band; the script renames it at once, so
  its name (here \<open>''constant''\<close>) is never read.\<close>

definition expression :: "image \<Rightarrow> expr \<Rightarrow> (string \<times> image) list \<Rightarrow> image option" where
  "expression img e vars =
     map_option (\<lambda>v. \<lparr>bands = [(''constant'', v)], time_start = None, inBounds = inBounds img\<rparr>)
       (eval img vars e)"

section \<open>Spectral indices\<close>

definition getEVI :: "image \<Rightarrow> image option" where
  "getEVI img = do {
     NIR \<leftarrow> select [''nir''] img;
     RED \<leftarrow> select [''red''] img;
     BLUE \<leftarrow> select [''blue''] img;
     result \<leftarrow> expression img
       (Mul (N 2.5) (Div (Sub (V ''NIR'') (V ''RED''))
          (Add (Sub (Add (V ''NIR'') (Mul (N 6) (V ''RED''))) (Mul (N 7.5) (V ''BLUE''))) (N 1))))
       [(''NIR'', NIR), (''RED'', RED), (''BLUE'', BLUE)];
     selectFirst ''evi'' (toFloat result)
   }"

definition getMIRBI :: "image \<Rightarrow> image option" where
  "getMIRBI img = do {
     lSWIR \<leftarrow> select [''lswir''] img;
     sSWIR \<leftarrow> select [''sswir''] img;
     result \<leftarrow> expression img
       (Add (Sub (Mul (N 10) (V ''lSWIR'')) (Mul (N 9.8) (V ''sSWIR''))) (N 2))
       [(''lSWIR'', lSWIR), (''sSWIR'', sSWIR)];
     selectFirst ''mirbi'' (toFloat result)
   }"

definition getBAI :: "image \<Rightarrow> image option" where
  "getBAI img = do {
     RED \<leftarrow> select [''red''] img;
     NIR \<leftarrow> select [''nir''] img;
     result \<leftarrow> expression img
       (Div (N 1) (Add (Pow (Sub (N 0.1) (V ''RED'')) 2) (Pow (Sub (N 0.06) (V ''NIR'')) 2)))
       [(''RED'', RED), (''NIR'', NIR)];
     selectFirst ''bai'' (toFloat result)
   }"

definition getBAIMs :: "image \<Rightarrow> image option" where
  "getBAIMs img = do {
     NIR \<leftarrow> select [''nir''] img;
     sSWIR \<leftarrow> select [''sswir''] img;
     result \<leftarrow> expression img
       (Div (N 1) (Add (Pow (Sub (V ''NIR'') (Mul (N 0.05) (V ''NIR''))) 2)
                       (Pow (Sub (V ''sSWIR'') (Mul (N 0.2) (V ''sSWIR''))) 2)))
       [(''NIR'', NIR), (''sSWIR'', sSWIR)];
     selectFirst ''baims'' (toFloat result)
   }"

definition getCSI :: "image \<Rightarrow> image option" where
  "getCSI img = do {
     NIR \<leftarrow> select [''nir''] img;
     sSWIR \<leftarrow> select [''sswir''] img;
     result \<leftarrow> expression img (Div (V ''NIR'') (V ''sSWIR''))
       [(''NIR'', NIR), (''sSWIR'', sSWIR)];
     selectFirst ''csi'' (toFloat result)
   }"

definition getBSI :: "image \<Rightarrow> image option" where
  "getBSI img = do {
     RED \<leftarrow> select [''red''] img;
     sSWIR \<leftarrow> select [''sswir''] img;
     BLUE \<leftarrow> select [''blue''] img;
     NIR \<leftarrow> select [''nir''] img;
     result \<leftarrow> expression img
       (Div (Sub (Add (V ''RED'') (V ''sSWIR'')) (Add (V ''NIR'') (V ''BLUE'')))
            (Add (Add (V ''RED'') (V ''sSWIR'')) (Add (V ''NIR'') (V ''BLUE''))))
       [(''RED'', RED), (''sSWIR'', sSWIR), (''BLUE'', BLUE), (''NIR'', NIR)];
     selectFirst ''bsi'' (toFloat result)
   }"

definition getMSAVI :: "image \<Rightarrow> image option" where
  "getMSAVI img = do {
     NIR \<leftarrow> select [''nir''] img;
     RED \<leftarrow> select [''red''] img;
     result \<leftarrow> expression img
       (Div (Sub (Add (Mul (N 2) (V ''NIR'')) (N 1))
                 (Sqrt (Sub (Pow (Add (Mul (N 2) (V ''NIR'')) (N 1)) 2)
                            (Mul (N 8) (Sub (V ''NIR'') (V ''RED''))))))
            (N 2))
       [(''NIR'', NIR), (''RED'', RED)];
     selectFirst ''msavi'' (toFloat result)
   }"

text \<open>The three tasseled-cap indices share one shape: a linear combination of the six
  reflective bands, with the coefficients of the source.\<close>

definition tcVars :: "image \<Rightarrow> (string \<times> image) list option" where
  "tcVars img = do {
     BLUE \<leftarrow> select [''blue''] img;
     GREEN \<leftarrow> select [''green''] img;
     RED \<leftarrow> select [''red''] img;
     NIR \<leftarrow> select [''nir''] img;
     sSWIR \<leftarrow> select [''sswir''] img;
     lSWIR \<leftarrow> select [''lswir''] img;
     Some [(''BLUE'', BLUE), (''GREEN'', GREEN), (''RED'', RED), (''NIR'', NIR),
           (''sSWIR'', sSWIR), (''lSWIR'', lSWIR)]
   }"

definition getTCB :: "image \<Rightarrow> image option" where
  "getTCB img = do {
     vars \<leftarrow> tcVars img;
     result \<leftarrow> expression img
       (Add (Add (Add (Add (Add (Mul (N 0.2043) (V ''BLUE'')) (Mul (N 0.4158) (V ''GREEN'')))
          (Mul (N 0.5524) (V ''RED''))) (Mul (N 0.5741) (V ''NIR'')))
          (Mul (N 0.3124) (V ''sSWIR''))) (Mul (N 0.2303) (V ''lSWIR'')))
       vars;
     selectFirst ''tcb'' (toFloat result)
   }"

definition getTCG :: "image \<Rightarrow> image option" where
  "getTCG img = do {
     vars \<leftarrow> tcVars img;
     result \<leftarrow> expression img
       (Sub (Sub (Add (Sub (Sub (Mul (N (- 0.1603)) (V ''BLUE'')) (Mul (N 0.2819) (V ''GREEN'')))
          (Mul (N 0.4934) (V ''RED''))) (Mul (N 0.7940) (V ''NIR'')))
          (Mul (N 0.0002) (V ''sSWIR''))) (Mul (N 0.1446) (V ''lSWIR'')))
       vars;
     selectFirst ''tcg'' (toFloat result)
   }"

definition getTCW :: "image \<Rightarrow> image option" where
  "getTCW img = do {
     vars \<leftarrow> tcVars img;
     result \<leftarrow> expression img
       (Sub (Sub (Add (Add (Add (Mul (N 0.0315) (V ''BLUE'')) (Mul (N 0.2021) (V ''GREEN'')))
          (Mul (N 0.3102) (V ''RED''))) (Mul (N 0.1594) (V ''NIR'')))
          (Mul (N 0.6806) (V ''sSWIR''))) (Mul (N 0.6109) (V ''lSWIR'')))
       vars;
     selectFirst ''tcw'' (toFloat result)
   }"

text \<open>
  \<^verbatim>\<open>normalizedDifference([a, b])\<close> is \<open>(a - b) / (a + b)\<close> in a band named \<open>nd\<close>; the
  engine masks the result where either input is negative.
\<close>

fun normDiff :: "pixel \<Rightarrow> pixel \<Rightarrow> pixel" where
  "normDiff (Val a) (Val b) = (if a < 0 \<or> b < 0 then Masked else Val ((a - b) / (a + b)))"
| "normDiff _ _ = Masked"

definition normalizedDifference :: "string \<Rightarrow> string \<Rightarrow> image \<Rightarrow> image option" where
  "normalizedDifference a b img = do {
     x \<leftarrow> band img a;
     y \<leftarrow> band img b;
     Some \<lparr>bands = [(''nd'', normDiff x y)], time_start = None, inBounds = inBounds img\<rparr>
   }"

definition ndIndex :: "string \<Rightarrow> string \<Rightarrow> string \<Rightarrow> image \<Rightarrow> image option" where
  "ndIndex a b name img = do { nd \<leftarrow> normalizedDifference a b img; rename [name] (toFloat nd) }"

definition Indices :: "image \<Rightarrow> image option" where
  "Indices img = do {
     nbr \<leftarrow> ndIndex ''nir'' ''lswir'' ''nbr'' img;
     nbr2 \<leftarrow> ndIndex ''sswir'' ''lswir'' ''nbr2'' img;
     ndvi \<leftarrow> ndIndex ''nir'' ''red'' ''ndvi'' img;
     ndmi \<leftarrow> ndIndex ''nir'' ''sswir'' ''ndmi'' img;
     ndwi \<leftarrow> ndIndex ''green'' ''nir'' ''ndwi'' img;
     evi \<leftarrow> getEVI img;
     mirbi \<leftarrow> getMIRBI img;
     bai \<leftarrow> getBAI img;
     baims \<leftarrow> getBAIMs img;
     csi \<leftarrow> getCSI img;
     bsi \<leftarrow> getBSI img;
     msavi \<leftarrow> getMSAVI img;
     tcb \<leftarrow> getTCB img;
     tcg \<leftarrow> getTCG img;
     tcw \<leftarrow> getTCW img;
     qa \<leftarrow> select [''qa_pixel''] img;
     Some (copyProperties
       (foldl addBands nbr [nbr2, ndvi, ndmi, ndwi, evi, mirbi, bai, baims, csi, bsi, msavi,
                            tcb, tcg, tcw, qa])
       img)
   }"

section \<open>Sensor harmonisation and the merged collection\<close>

definition scale :: real where "scale = 0.0000275"
definition offset :: real where "offset = - 0.2"

definition convertBandsls89 :: "image \<Rightarrow> image option" where
  "convertBandsls89 lsImage = do {
     qa \<leftarrow> select [''QA_PIXEL''] lsImage;
     sr \<leftarrow> select [''SR_B2'', ''SR_B3'', ''SR_B4'', ''SR_B5'', ''SR_B6'', ''SR_B7''] lsImage;
     let bands = toFloat (mapBands (lift1 (\<lambda>x. x * scale + offset)) sr);
     Some (copyProperties (addBands bands qa) lsImage)
   }"

definition ls89Rename :: "image \<Rightarrow> image option" where
  "ls89Rename lsImage = do {
     sub \<leftarrow> select2 [''SR_B2'', ''SR_B3'', ''SR_B4'', ''SR_B5'', ''SR_B6'', ''SR_B7'', ''QA_PIXEL'']
              [''blue'', ''green'', ''red'', ''nir'', ''sswir'', ''lswir'', ''qa_pixel''] lsImage;
     Some (copyProperties sub lsImage)
   }"

definition convertBandsls457 :: "image \<Rightarrow> image option" where
  "convertBandsls457 lsImage = do {
     qa \<leftarrow> select [''QA_PIXEL''] lsImage;
     sr \<leftarrow> select [''SR_B1'', ''SR_B2'', ''SR_B3'', ''SR_B4'', ''SR_B5'', ''SR_B7''] lsImage;
     let bands = toFloat (mapBands (lift1 (\<lambda>x. x * scale + offset)) sr);
     Some (copyProperties (addBands bands qa) lsImage)
   }"

definition ls457Rename :: "image \<Rightarrow> image option" where
  "ls457Rename lsImage = do {
     sub \<leftarrow> select2 [''SR_B1'', ''SR_B2'', ''SR_B3'', ''SR_B4'', ''SR_B5'', ''SR_B7'', ''QA_PIXEL'']
              [''blue'', ''green'', ''red'', ''nir'', ''sswir'', ''lswir'', ''qa_pixel''] lsImage;
     Some (copyProperties sub lsImage)
   }"

text \<open>Collections are lists of images. \<^verbatim>\<open>map\<close> fails as a whole when the function fails
  on one image; \<^verbatim>\<open>filterDate(start, end)\<close> keeps the images with
  \<open>start \<le> time_start < end\<close>; \<^verbatim>\<open>a.merge(b)\<close> is \<open>a\<close> followed by \<open>b\<close>.\<close>

fun mapCol :: "(image \<Rightarrow> image option) \<Rightarrow> image list \<Rightarrow> image list option" where
  "mapCol f [] = Some []"
| "mapCol f (i # is) =
     (case f i of None \<Rightarrow> None
      | Some r \<Rightarrow> (case mapCol f is of None \<Rightarrow> None | Some rs \<Rightarrow> Some (r # rs)))"

fun date_le :: "date \<Rightarrow> date \<Rightarrow> bool" where
  "date_le (y, m, d) (y', m', d') =
     (y < y' \<or> (y = y' \<and> (m < m' \<or> (m = m' \<and> d \<le> d'))))"

definition date_less :: "date \<Rightarrow> date \<Rightarrow> bool" where
  "date_less a b = (date_le a b \<and> a \<noteq> b)"

definition inDates :: "date \<Rightarrow> date \<Rightarrow> image \<Rightarrow> bool" where
  "inDates start end' img =
     (case time_start img of None \<Rightarrow> False | Some t \<Rightarrow> date_le start t \<and> date_less t end')"

definition filterDate :: "date \<Rightarrow> date \<Rightarrow> image list \<Rightarrow> image list" where
  "filterDate start end' col = filter (inDates start end') col"

definition filterBounds :: "image list \<Rightarrow> image list" where
  "filterBounds col = filter inBounds col"

definition merge :: "image list \<Rightarrow> image list \<Rightarrow> image list" where
  "merge a b = a @ b"

text \<open>The five Landsat archives are the script's input; Landsat 7 is read twice, split
  at the failure of its scan line corrector on 1 June 2003.\<close>

record archives =
  LT04 :: "image list"
  LT05 :: "image list"
  LE07 :: "image list"
  LC08 :: "image list"
  LC09 :: "image list"

definition ls89 :: "image \<Rightarrow> image option" where
  "ls89 raw = do { c \<leftarrow> convertBandsls89 raw; r \<leftarrow> ls89Rename c; i \<leftarrow> Indices r; lsMaskNew i }"

definition ls457 :: "image \<Rightarrow> image option" where
  "ls457 raw = do { c \<leftarrow> convertBandsls457 raw; r \<leftarrow> ls457Rename c; i \<leftarrow> Indices r; lsMaskNew i }"

definition ls7bad :: "image \<Rightarrow> image option" where
  "ls7bad raw = do { c \<leftarrow> convertBandsls457 raw; r \<leftarrow> ls457Rename c; i \<leftarrow> Indices r; SLC_lsMask i }"

definition lsCol :: "archives \<Rightarrow> image list option" where
  "lsCol ar = do {
     ls9 \<leftarrow> mapCol ls89 (filterBounds (LC09 ar));
     ls8 \<leftarrow> mapCol ls89 (filterBounds (LC08 ar));
     ls7_OK \<leftarrow> mapCol ls457 (filterBounds (filterDate (1999, 1, 1) (2003, 6, 1) (LE07 ar)));
     ls7_BAD \<leftarrow> mapCol ls7bad (filterBounds (filterDate (2003, 6, 1) (2033, 1, 1) (LE07 ar)));
     ls5 \<leftarrow> mapCol ls457 (filterBounds (LT05 ar));
     ls4 \<leftarrow> mapCol ls457 (filterBounds (LT04 ar));
     Some (merge ls9 (merge ls8 (merge ls7_BAD (merge ls7_OK (merge ls5 ls4)))))
   }"

section \<open>Temporal compositing\<close>

text \<open>
  A reducer over a collection works band by band on the values that are not masked;
  with none, the result is masked. The median of an even number of values is the mean of
  the two in the middle. The reduction of an empty collection is an image with no bands,
  and one over images whose band lists differ is rejected.
\<close>

definition unmasked :: "string \<Rightarrow> image list \<Rightarrow> real list" where
  "unmasked b col = concat (map (\<lambda>i. case band i b of Some (Val v) \<Rightarrow> [v] | _ \<Rightarrow> []) col)"

definition median :: "real list \<Rightarrow> pixel" where
  "median vs =
     (if vs = [] then Masked
      else let s = sort vs; n = length s in
        if odd n then Val (s ! (n div 2))
        else Val ((s ! (n div 2 - 1) + s ! (n div 2)) / 2))"

definition mean :: "real list \<Rightarrow> pixel" where
  "mean vs = (if vs = [] then Masked else Val (sum_list vs / real (length vs)))"

definition minimum :: "real list \<Rightarrow> pixel" where
  "minimum vs = (if vs = [] then Masked else Val (Min (set vs)))"

definition reduceCol :: "(real list \<Rightarrow> pixel) \<Rightarrow> image list \<Rightarrow> image option" where
  "reduceCol f col =
     (case col of
        [] \<Rightarrow> Some \<lparr>bands = [], time_start = None, inBounds = True\<rparr>
      | i # _ \<Rightarrow>
          if list_all (\<lambda>j. bandNames j = bandNames i) col
          then Some \<lparr>bands = map (\<lambda>b. (b, f (unmasked b col))) (bandNames i),
                      time_start = None, inBounds = True\<rparr>
          else None)"

definition preVariables :: "string list" where
  "preVariables = map (\<lambda>word. ''pre_'' @ word) allVariables"

definition postVariables :: "string list" where
  "postVariables = map (\<lambda>word. ''post_'' @ word) allVariables"

text \<open>\<^verbatim>\<open>ee.Image()\<close> is one band, masked everywhere; \<^verbatim>\<open>ee.Image.cat\<close> puts the bands of
  its arguments side by side.\<close>

definition ee_Image :: image where
  "ee_Image = \<lparr>bands = [(''constant'', Masked)], time_start = None, inBounds = True\<rparr>"

definition cat :: "image list \<Rightarrow> image" where
  "cat imgs = \<lparr>bands = concat (map bands imgs), time_start = None, inBounds = True\<rparr>"

definition transparentImage :: "image option" where
  "transparentImage = rename allVariables (cat (map (\<lambda>count. toFloat ee_Image) allVariables))"

definition advance :: "int \<Rightarrow> date \<Rightarrow> date" where
  "advance k t = (case t of (y, m, d) \<Rightarrow> (y + k, m, d))"

definition startDate :: "int \<Rightarrow> date" where
  "startDate year_select = (year_select, 6, 15)"

definition endDate :: "int \<Rightarrow> date" where
  "endDate year_select = (year_select, 9, 1)"

definition preFilteredCol :: "image list \<Rightarrow> int \<Rightarrow> image list option" where
  "preFilteredCol imgCol year_select = do {
     t \<leftarrow> transparentImage;
     Some (merge (filterDate (advance (- 1) (startDate year_select))
                    (advance (- 1) (endDate year_select)) (filterBounds imgCol)) [t])
   }"

definition pre_filled :: "image list \<Rightarrow> int \<Rightarrow> image option" where
  "pre_filled imgCol year_select = do {
     col \<leftarrow> preFilteredCol imgCol year_select;
     m \<leftarrow> reduceCol median col;
     select2 allVariables preVariables m
   }"

definition postFilteredCol :: "image list \<Rightarrow> int \<Rightarrow> image list option" where
  "postFilteredCol imgCol year_select = do {
     t \<leftarrow> transparentImage;
     Some (merge (filterDate (advance 1 (startDate year_select))
                    (advance 1 (endDate year_select)) (filterBounds imgCol)) [t])
   }"

definition post_filled :: "image list \<Rightarrow> int \<Rightarrow> image option" where
  "post_filled imgCol year_select = do {
     col \<leftarrow> postFilteredCol imgCol year_select;
     m \<leftarrow> reduceCol median col;
     select2 allVariables postVariables m
   }"

definition fireIndices :: "image list \<Rightarrow> int \<Rightarrow> image option" where
  "fireIndices imgCol year_select = do {
     pre \<leftarrow> pre_filled imgCol year_select;
     post \<leftarrow> post_filled imgCol year_select;
     Some (addBands pre post)
   }"

section \<open>Burn metrics\<close>

text \<open>Every metric but \<open>pre_nbr3\<close> is built the same way: an expression over the bands
  so far, renamed, cast to integer, and put in front of the bands so far.\<close>

definition burnStep :: "expr \<Rightarrow> string \<Rightarrow> image \<Rightarrow> image option" where
  "burnStep e name prev = do {
     x \<leftarrow> expression prev e [];
     r \<leftarrow> rename [name] x;
     Some (addBands (img_toInt r) prev)
   }"

definition diffExpr :: "string \<Rightarrow> expr" where
  "diffExpr ix = Sub (B (''pre_'' @ ix)) (B (''post_'' @ ix))"

definition burnIndices :: "image \<Rightarrow> image option" where
  "burnIndices prev = burnStep (Mul (diffExpr ''nbr'') (N 1000)) ''dnbr'' prev"

definition burnIndices2 :: "image \<Rightarrow> image option" where
  "burnIndices2 prev =
     burnStep (Div (B ''dnbr'') (Add (B ''pre_nbr'') (N 1.001))) ''rbr'' prev"

definition burnIndices3 :: "image \<Rightarrow> image option" where
  "burnIndices3 prev = do {
     x \<leftarrow> expression prev
            (Cond (Lt (Abs (B ''pre_nbr'')) (N 0.001)) (N 0.001) (B ''pre_nbr'')) [];
     r \<leftarrow> rename [''pre_nbr3''] (mapBands px_sqrt (mapBands (lift1 abs) x));
     Some (addBands (toFloat r) prev)
   }"

definition burnIndices4 :: "image \<Rightarrow> image option" where
  "burnIndices4 prev =
     burnStep (Div (B ''dnbr'') (B ''pre_nbr3'')) ''rdnbr'' prev"

definition burnIndices5 :: "image \<Rightarrow> image option" where
  "burnIndices5 prev = burnStep (Mul (diffExpr ''ndvi'') (N 1000)) ''dndvi'' prev"

definition burnIndices6 :: "image \<Rightarrow> image option" where
  "burnIndices6 prev = burnStep (Mul (diffExpr ''evi'') (N 1000)) ''devi'' prev"

definition burnIndices7 :: "image \<Rightarrow> image option" where
  "burnIndices7 prev = burnStep (Mul (diffExpr ''ndmi'') (N 1000)) ''dndmi'' prev"

definition burnIndices8 :: "image \<Rightarrow> image option" where
  "burnIndices8 prev = burnStep (Mul (diffExpr ''mirbi'') (N 1000)) ''dmirbi'' prev"

definition burnIndices9 :: "image \<Rightarrow> image option" where
  "burnIndices9 prev = burnStep (Mul (diffExpr ''nbr2'') (N 1000)) ''dnbr2'' prev"

definition burnIndices10 :: "image \<Rightarrow> image option" where
  "burnIndices10 prev = burnStep (Mul (diffExpr ''ndwi'') (N 1000)) ''dndwi'' prev"

definition burnIndices11 :: "image \<Rightarrow> image option" where
  "burnIndices11 prev = burnStep (diffExpr ''bai'') ''dbai'' prev"

definition burnIndices12 :: "image \<Rightarrow> image option" where
  "burnIndices12 prev = burnStep (Mul (diffExpr ''baims'') (N 10)) ''dbaims'' prev"

definition burnIndices13 :: "image \<Rightarrow> image option" where
  "burnIndices13 prev = burnStep (Mul (diffExpr ''csi'') (N 1000)) ''dcsi'' prev"

definition burnIndices14 :: "image \<Rightarrow> image option" where
  "burnIndices14 prev = burnStep (Mul (diffExpr ''bsi'') (N 1000)) ''dbsi'' prev"

definition burnIndices15 :: "image \<Rightarrow> image option" where
  "burnIndices15 prev = burnStep (Mul (diffExpr ''tcb'') (N 100)) ''dtcb'' prev"

definition burnIndices16 :: "image \<Rightarrow> image option" where
  "burnIndices16 prev = burnStep (Mul (diffExpr ''tcg'') (N 100)) ''dtcg'' prev"

definition burnIndices17 :: "image \<Rightarrow> image option" where
  "burnIndices17 prev = burnStep (Mul (diffExpr ''tcw'') (N 100)) ''dtcw'' prev"

definition burnIndices18 :: "image \<Rightarrow> image option" where
  "burnIndices18 prev = burnStep (Mul (diffExpr ''msavi'') (N 1000)) ''dmsavi'' prev"

text \<open>The land and water masks at the pixel: \<open>max_extent\<close> is the band of the surface
  water data set there, \<open>shore_count\<close> the number of mainland and big-island polygons
  over it (\<^verbatim>\<open>reduceToImage\<close> with a count leaves a pixel under no polygon masked),
  \<open>inROI\<close> whether the pixel lies in the region of interest.\<close>

record site =
  max_extent :: pixel
  shore_count :: nat
  inROI :: bool

definition px_clip :: "bool \<Rightarrow> pixel \<Rightarrow> pixel" where
  "px_clip inside v = (if inside then v else Masked)"

definition clip :: "image \<Rightarrow> bool \<Rightarrow> image" where
  "clip img inside = mapBands (px_clip inside) img"

fun px_selfMask :: "pixel \<Rightarrow> pixel" where
  "px_selfMask (Val x) = (if x \<noteq> 0 then Val x else Masked)"
| "px_selfMask Masked = Masked"

definition selfMask :: "image \<Rightarrow> image" where
  "selfMask img = mapBands px_selfMask img"

definition dryLand :: "site \<Rightarrow> pixel" where
  "dryLand st = px_clip (inROI st) (px_selfMask (lift1 (\<lambda>x. of_bool_real (x = 0)) (max_extent st)))"

definition land :: "site \<Rightarrow> pixel" where
  "land st = px_clip (inROI st) (if shore_count st = 0 then Masked else Val (real (shore_count st)))"

definition predictorVariables :: "string list" where
  "predictorVariables = [''dNBR2'', ''dTCG'', ''dTCB'']"

definition lower_char :: "char \<Rightarrow> char" where
  "lower_char c =
     (case map_of (zip ''ABCDEFGHIJKLMNOPQRSTUVWXYZ'' ''abcdefghijklmnopqrstuvwxyz'') c of
        Some l \<Rightarrow> l
      | None \<Rightarrow> c)"

definition toLowerCase :: "string \<Rightarrow> string" where
  "toLowerCase str = map lower_char str"

definition lowerCaseVariables :: "string list" where
  "lowerCaseVariables = map toLowerCase predictorVariables"

definition burnIndices19 :: "site \<Rightarrow> image \<Rightarrow> image option" where
  "burnIndices19 st prev =
     select2 lowerCaseVariables predictorVariables (updateMask prev (dryLand st))"

definition burnMetrics :: "site \<Rightarrow> image \<Rightarrow> image option" where
  "burnMetrics st fi = do {
     b1 \<leftarrow> burnIndices fi; b2 \<leftarrow> burnIndices2 b1; b3 \<leftarrow> burnIndices3 b2;
     b4 \<leftarrow> burnIndices4 b3; b5 \<leftarrow> burnIndices5 b4; b6 \<leftarrow> burnIndices6 b5;
     b7 \<leftarrow> burnIndices7 b6; b8 \<leftarrow> burnIndices8 b7; b9 \<leftarrow> burnIndices9 b8;
     b10 \<leftarrow> burnIndices10 b9; b11 \<leftarrow> burnIndices11 b10; b12 \<leftarrow> burnIndices12 b11;
     b13 \<leftarrow> burnIndices13 b12; b14 \<leftarrow> burnIndices14 b13; b15 \<leftarrow> burnIndices15 b14;
     b16 \<leftarrow> burnIndices16 b15; b17 \<leftarrow> burnIndices17 b16; b18 \<leftarrow> burnIndices18 b17;
     burnIndices19 st b18
   }"

section \<open>Classifier\<close>

text \<open>The random forest is trained outside; here it is a function from the predictor
  values to a probability. \<^verbatim>\<open>classify\<close> gives one band, \<open>classification\<close>, masked where a
  predictor is masked.\<close>

fun known :: "(string \<times> pixel) list \<Rightarrow> real list option" where
  "known [] = Some []"
| "known ((n, Val x) # bs) = map_option ((#) x) (known bs)"
| "known ((n, Masked) # bs) = None"

definition classify :: "(real list \<Rightarrow> real) \<Rightarrow> image \<Rightarrow> image" where
  "classify THEclassifier img =
     img\<lparr>bands := [(''classification'',
        case known (bands img) of None \<Rightarrow> Masked | Some xs \<Rightarrow> Val (THEclassifier xs))]\<rparr>"

definition predictedImage :: "(real list \<Rightarrow> real) \<Rightarrow> site \<Rightarrow> image \<Rightarrow> image" where
  "predictedImage THEclassifier st prev =
     updateMask (updateMask (classify THEclassifier prev) (dryLand st)) (land st)"

section \<open>Deviation from the three years before\<close>

text \<open>
  A binary operation on two images pairs their bands: an image with one band is used
  against every band of the other; images with equally many bands are paired by name
  when they carry the same names and in order otherwise; any other pair is rejected.
  The result takes the names of the first image, or of the longer one.
\<close>

definition sndBand :: "image \<Rightarrow> pixel" where
  "sndBand img = (case bands img of [] \<Rightarrow> Masked | (n, v) # _ \<Rightarrow> v)"

definition binop :: "(real \<Rightarrow> real \<Rightarrow> real) \<Rightarrow> image \<Rightarrow> image \<Rightarrow> image option" where
  "binop f a b =
     (if length (bands b) = 1
      then Some (a\<lparr>bands := map (\<lambda>(n, v). (n, lift2 f v (sndBand b))) (bands a)\<rparr>)
      else if length (bands a) = 1
      then Some (a\<lparr>bands := map (\<lambda>(n, w). (n, lift2 f (sndBand a) w)) (bands b)\<rparr>)
      else if length (bands a) = length (bands b)
      then Some (a\<lparr>bands :=
             map (\<lambda>((n, v), (m, w)).
                    (n, lift2 f v (if set (bandNames a) = set (bandNames b)
                                   then (case band b n of Some w' \<Rightarrow> w' | None \<Rightarrow> w)
                                   else w)))
               (zip (bands a) (bands b))\<rparr>)
      else None)"

definition divide :: "image \<Rightarrow> image \<Rightarrow> image option" where
  "divide a b = binop (/) a b"

definition subtract :: "image \<Rightarrow> image \<Rightarrow> image option" where
  "subtract a b = binop (-) a b"

definition img_add :: "image \<Rightarrow> image \<Rightarrow> image option" where
  "img_add a b = binop (+) a b"

definition window :: "int \<Rightarrow> int \<Rightarrow> image list \<Rightarrow> image list" where
  "window year_select k col =
     filterDate (advance k (startDate year_select)) (advance k (endDate year_select)) col"

definition PREmedian :: "image list \<Rightarrow> int \<Rightarrow> image option" where
  "PREmedian imgCol year_select =
     (let Tm1 = window year_select (- 1) imgCol;
          Tm2 = window year_select (- 2) imgCol;
          Tm3 = window year_select (- 3) imgCol
      in reduceCol median (merge Tm1 (merge Tm2 Tm3)))"

definition TSdevDiv :: "image list \<Rightarrow> image \<Rightarrow> image list option" where
  "TSdevDiv imgCol pre = mapCol (\<lambda>IMG. map_option (\<lambda>d. copyProperties d IMG) (divide IMG pre)) imgCol"

definition divCol :: "image list \<Rightarrow> int \<Rightarrow> bool \<Rightarrow> image option" where
  "divCol imgCol year_select roi = do {
     pre \<leftarrow> PREmedian imgCol year_select;
     ts \<leftarrow> TSdevDiv imgCol pre;
     a \<leftarrow> reduceCol median (window year_select 1 ts);
     b \<leftarrow> reduceCol median (window year_select 0 ts);
     reduceCol minimum [clip a roi, clip b roi]
   }"

definition TSdevSub :: "image list \<Rightarrow> image \<Rightarrow> image list option" where
  "TSdevSub imgCol pre = mapCol (\<lambda>IMG. map_option (\<lambda>d. copyProperties d IMG) (subtract IMG pre)) imgCol"

definition subCol :: "image list \<Rightarrow> int \<Rightarrow> bool \<Rightarrow> image option" where
  "subCol imgCol year_select roi = do {
     pre \<leftarrow> PREmedian imgCol year_select;
     ts \<leftarrow> TSdevSub imgCol pre;
     a \<leftarrow> reduceCol mean (window year_select 1 ts);
     b \<leftarrow> reduceCol mean (window year_select 0 ts);
     reduceCol minimum [clip a roi, clip b roi]
   }"

definition meanCol :: "image list \<Rightarrow> int \<Rightarrow> bool \<Rightarrow> image option" where
  "meanCol imgCol year_select roi = do {
     a \<leftarrow> reduceCol minimum (window year_select 1 imgCol);
     b \<leftarrow> reduceCol minimum (window year_select 0 imgCol);
     reduceCol minimum [clip a roi, clip b roi]
   }"

text \<open>\<^verbatim>\<open>meanIMG\<close>, \<^verbatim>\<open>divIMG\<close> and \<^verbatim>\<open>subIMG\<close>: lakes masked, then the ocean.\<close>

definition landMasked :: "site \<Rightarrow> image \<Rightarrow> image" where
  "landMasked st img = updateMask (updateMask img (dryLand st)) (land st)"

section \<open>The four rules and the candidate fire mask\<close>

definition gt :: "image \<Rightarrow> real \<Rightarrow> image" where
  "gt img c = mapBands (lift1 (\<lambda>x. of_bool_real (c < x))) img"

definition lt :: "image \<Rightarrow> real \<Rightarrow> image" where
  "lt img c = mapBands (lift1 (\<lambda>x. of_bool_real (x < c))) img"

definition img_eq :: "image \<Rightarrow> real \<Rightarrow> image" where
  "img_eq img c = mapBands (lift1 (\<lambda>x. of_bool_real (x = c))) img"

definition hiRFthresh :: "image \<Rightarrow> image" where
  "hiRFthresh predicted = gt predicted 0.9"

definition hiDEVthresh :: "image \<Rightarrow> image option" where
  "hiDEVthresh divIMG = do { s \<leftarrow> select [''nbr2''] divIMG; Some (lt s 0.5) }"

definition hiSUBthresh :: "image \<Rightarrow> image option" where
  "hiSUBthresh subIMG = do { s \<leftarrow> select [''nbr2''] subIMG; Some (lt s (- 0.1)) }"

definition hiMNthresh :: "image \<Rightarrow> image option" where
  "hiMNthresh meanIMG = do { s \<leftarrow> select [''nbr''] meanIMG; Some (lt s 0) }"

text \<open>The four rule rasters of one run, from the masked inputs.\<close>

record rules =
  hiRF :: image
  hiDEV :: image
  hiSUB :: image
  hiMN :: image

definition thresholds :: "site \<Rightarrow> image \<Rightarrow> image \<Rightarrow> image \<Rightarrow> image \<Rightarrow> rules option" where
  "thresholds st predicted divC subC meanC = do {
     dev \<leftarrow> hiDEVthresh (landMasked st divC);
     sub \<leftarrow> hiSUBthresh (landMasked st subC);
     mn \<leftarrow> hiMNthresh (landMasked st meanC);
     Some \<lparr>hiRF = hiRFthresh predicted, hiDEV = dev, hiSUB = sub, hiMN = mn\<rparr>
   }"

text \<open>The mask that is vectorised (the second \<^verbatim>\<open>subIMG\<close> of the script): the four rule
  rasters clipped to the region, added, compared with 4, and masked where that fails.\<close>

definition candidate :: "rules \<Rightarrow> bool \<Rightarrow> image option" where
  "candidate rs inRegion = do {
     let one = clip (hiRF rs) inRegion;
     let two = clip (hiDEV rs) inRegion;
     let three = clip (hiSUB rs) inRegion;
     let four = clip (hiMN rs) inRegion;
     s2 \<leftarrow> img_add one two;
     s3 \<leftarrow> img_add s2 three;
     s4 \<leftarrow> img_add s3 four;
     Some (selfMask (img_eq s4 4))
   }"

text \<open>One run of the script up to the four rule rasters: from the archives, the year
  chosen and the classifier, at the pixel described by \<open>st\<close>.\<close>

definition run :: "(real list \<Rightarrow> real) \<Rightarrow> site \<Rightarrow> archives \<Rightarrow> int \<Rightarrow> rules option" where
  "run THEclassifier st ar year_select = do {
     imgCol \<leftarrow> lsCol ar;
     fi \<leftarrow> fireIndices imgCol year_select;
     b19 \<leftarrow> burnMetrics st fi;
     divC \<leftarrow> divCol imgCol year_select (inROI st);
     subC \<leftarrow> subCol imgCol year_select (inROI st);
     meanC \<leftarrow> meanCol imgCol year_select (inROI st);
     thresholds st (predictedImage THEclassifier st b19) divC subC meanC
   }"

section \<open>Tiled export\<close>

text \<open>
  A cell of the covering grid is known here by whether it holds the pixel followed. An
  export task is its description and the value of the vectorised mask at that pixel;
  the value is \<open>None\<close> when the task cannot be computed, as when the grid has no cell
  with the index asked for.
\<close>

record cell =
  covers :: bool

record task =
  description :: string
  collection :: "pixel option"

definition digit :: "nat \<Rightarrow> char" where
  "digit d = ''0123456789'' ! d"

fun dec :: "nat \<Rightarrow> string" where
  "dec n = (if n < 10 then [digit n] else dec (n div 10) @ [digit (n mod 10)])"

definition show_int :: "int \<Rightarrow> string" where
  "show_int i = (if i < 0 then ''-'' @ dec (nat (- i)) else dec (nat i))"

text \<open>\<^verbatim>\<open>format('%02d')\<close>: at least two digits, padded with a zero.\<close>

definition format02 :: "nat \<Rightarrow> string" where
  "format02 i = (if i < 10 then ''0'' @ dec i else dec i)"

definition Res :: nat where "Res = 60"
definition pxFilter :: nat where "pxFilter = 0"

definition get :: "'a list \<Rightarrow> nat \<Rightarrow> 'a option" where
  "get xs i = (if i < length xs then Some (xs ! i) else None)"

definition toList :: "nat \<Rightarrow> 'a list \<Rightarrow> 'a list" where
  "toList n xs = take n xs"

definition vectors :: "rules \<Rightarrow> bool \<Rightarrow> pixel option" where
  "vectors rs inRegion = do { m \<leftarrow> candidate rs inRegion; firstBand m }"

definition tileTask :: "int \<Rightarrow> rules \<Rightarrow> cell list \<Rightarrow> nat \<Rightarrow> task" where
  "tileTask year_select rs grid i =
     \<lparr>description = ''candidateFires__'' @ show_int year_select @ ''__ROIsub_'' @ format02 i
          @ ''_'' @ dec pxFilter @ ''px'' @ dec Res @ ''m'',
      collection = do { subROI \<leftarrow> get (toList 24 grid) i; vectors rs (covers subROI) }\<rparr>"

function tileLoop :: "int \<Rightarrow> rules \<Rightarrow> cell list \<Rightarrow> nat \<Rightarrow> task list \<Rightarrow> task list" where
  "tileLoop year_select rs grid i tasks =
     (if i < 24 then tileLoop year_select rs grid (i + 1) (tasks @ [tileTask year_select rs grid i])
      else tasks)"
  by pat_completeness auto
termination
  by (relation "measure (\<lambda>(y, rs, grid, i, tasks). 24 - i)") auto

declare tileLoop.simps [simp del]

definition drawTask :: "int \<Rightarrow> rules \<Rightarrow> bool \<Rightarrow> task" where
  "drawTask year_select rs roi =
     \<lparr>description = ''candidateFires__'' @ show_int year_select @ ''__'' @ ''drawROI''
          @ ''_'' @ dec pxFilter @ ''px'' @ dec Res @ ''m'',
      collection = vectors rs roi\<rparr>"

text \<open>The tasks one press of the run button hands to the export sink.\<close>

definition exports :: "bool \<Rightarrow> bool \<Rightarrow> int \<Rightarrow> rules \<Rightarrow> cell list \<Rightarrow> bool \<Rightarrow> task list" where
  "exports Export_select ROI_select year_select rs grid roi =
     (if Export_select \<and> \<not> ROI_select then tileLoop year_select rs grid 1 []
      else if Export_select \<and> ROI_select then [drawTask year_select rs roi]
      else [])"

section \<open>Auxiliary notions and sample inputs\<close>

definition hasBands :: "string list \<Rightarrow> image \<Rightarrow> bool" where
  "hasBands ns img = list_all (\<lambda>n. band img n \<noteq> None) ns"

definition canonical :: "string list" where
  "canonical = [''blue'', ''green'', ''red'', ''nir'', ''sswir'', ''lswir'', ''qa_pixel'']"

text \<open>A Landsat 8 scene at the pixel, an archive holding just that scene, and a pixel
  already in the canonical schema.\<close>

definition raw0 :: image where
  "raw0 = \<lparr>bands = [(''SR_B1'', Val 8000), (''SR_B2'', Val 9000), (''SR_B3'', Val 10000),
       (''SR_B4'', Val 11000), (''SR_B5'', Val 20000), (''SR_B6'', Val 15000),
       (''SR_B7'', Val 12000), (''QA_PIXEL'', Val 21824)],
     time_start = Some (2020, 7, 1), inBounds = True\<rparr>"

definition archive0 :: archives where
  "archive0 = \<lparr>LT04 = [], LT05 = [], LE07 = [], LC08 = [raw0], LC09 = []\<rparr>"

definition canon0 :: image where
  "canon0 = \<lparr>bands = [(''blue'', Val 0.02), (''green'', Val 0.05), (''red'', Val 0.04),
       (''nir'', Val 0.3), (''sswir'', Val 0.2), (''lswir'', Val 0.1), (''qa_pixel'', Val 21824)],
     time_start = Some (2020, 7, 1), inBounds = True\<rparr>"

text \<open>The value of \<open>pre_nbr3\<close> for a pre-fire NBR of \<open>p\<close>: the conditional
  expression, then \<^verbatim>\<open>abs\<close>, then \<^verbatim>\<open>sqrt\<close>.\<close>

definition pre_nbr3_of :: "real \<Rightarrow> real" where
  "pre_nbr3_of p = sqrt \<bar>if \<bar>p\<bar> < 0.001 then 0.001 else p\<bar>"

text \<open>A rule holds at a pixel when the pixel has a value and the value passes the
  threshold; the pixel is on land when it lies in the region, outside the permanent
  water, and under a shoreline polygon.\<close>

fun holds :: "(real \<Rightarrow> bool) \<Rightarrow> pixel \<Rightarrow> bool" where
  "holds P (Val x) = P x"
| "holds P Masked = False"

definition onLand :: "site \<Rightarrow> bool" where
  "onLand st = (inROI st \<and> max_extent st = Val 0 \<and> 0 < shore_count st)"

definition composite0 :: "real \<Rightarrow> real \<Rightarrow> image" where
  "composite0 p q = \<lparr>bands = [(''pre_nbr'', Val p), (''post_nbr'', Val q)],
     time_start = None, inBounds = True\<rparr>"

definition site0 :: site where
  "site0 = \<lparr>max_extent = Val 0, shore_count = 1, inROI = True\<rparr>"

definition single :: "string \<Rightarrow> real \<Rightarrow> image" where
  "single n x = \<lparr>bands = [(n, Val x)], time_start = None, inBounds = True\<rparr>"

definition predictors0 :: image where
  "predictors0 = \<lparr>bands = [(''dNBR2'', Val 120), (''dTCG'', Val 3), (''dTCB'', Val 5)],
     time_start = None, inBounds = True\<rparr>"

definition rules0 :: rules where
  "rules0 = \<lparr>hiRF = single ''classification'' 1, hiDEV = single ''nbr2'' 1,
     hiSUB = single ''nbr2'' 1, hiMN = single ''nbr'' 1\<rparr>"

definition grid0 :: "cell list" where
  "grid0 = \<lparr>covers = True\<rparr> # replicate 23 \<lparr>covers = False\<rparr>"

text \<open>The bands an expression reads, and whether it is free of variables.\<close>

fun bvars :: "expr \<Rightarrow> string list" where
  "bvars (B n) = [n]"
| "bvars (V x) = []"
| "bvars (N c) = []"
| "bvars (Add a b) = bvars a @ bvars b"
| "bvars (Sub a b) = bvars a @ bvars b"
| "bvars (Mul a b) = bvars a @ bvars b"
| "bvars (Div a b) = bvars a @ bvars b"
| "bvars (Pow a k) = bvars a"
| "bvars (Sqrt a) = bvars a"
| "bvars (Abs a) = bvars a"
| "bvars (Lt a b) = bvars a @ bvars b"
| "bvars (Cond c a b) = bvars c @ bvars a @ bvars b"

fun novars :: "expr \<Rightarrow> bool" where
  "novars (B n) = True"
| "novars (V x) = False"
| "novars (N c) = True"
| "novars (Add a b) = (novars a \<and> novars b)"
| "novars (Sub a b) = (novars a \<and> novars b)"
| "novars (Mul a b) = (novars a \<and> novars b)"
| "novars (Div a b) = (novars a \<and> novars b)"
| "novars (Pow a k) = novars a"
| "novars (Sqrt a) = novars a"
| "novars (Abs a) = novars a"
| "novars (Lt a b) = (novars a \<and> novars b)"
| "novars (Cond c a b) = (novars c \<and> novars a \<and> novars b)"

text \<open>An observation as the merged collection holds it: the 15 index bands, here all
  with the value \<open>v\<close>, taken at date \<open>t\<close>.\<close>

definition observation :: "real \<Rightarrow> date \<Rightarrow> image" where
  "observation v t = \<lparr>bands = map (\<lambda>n. (n, Val v)) allVariables, time_start = Some t, inBounds = True\<rparr>"

definition sample_col :: "image list" where
  "sample_col = [observation 0.4 (2020, 7, 1), observation 0.2 (2020, 8, 1)]"

text \<open>
  The deviation detector in the words of its description, for comparison with
  \<open>PREmedian\<close> and \<open>divCol\<close>: the window from 15 June to 1 September of the year
  \<open>y + k\<close>; the observations of the three years before \<open>y\<close>; the values of a band over
  a set of observations, each divided by the baseline value \<open>p\<close> of that band; and the
  smaller of two pixels, a masked one standing back.
\<close>

definition inWindow :: "int \<Rightarrow> int \<Rightarrow> image \<Rightarrow> bool" where
  "inWindow y k img = inDates (y + k, 6, 15) (y + k, 9, 1) img"

definition baselineYears :: "image list \<Rightarrow> int \<Rightarrow> image list" where
  "baselineYears imgCol y =
     filter (\<lambda>i. inWindow y (- 1) i \<or> inWindow y (- 2) i \<or> inWindow y (- 3) i) imgCol"

definition ratios :: "string \<Rightarrow> pixel \<Rightarrow> image list \<Rightarrow> real list" where
  "ratios b p col = (case p of Masked \<Rightarrow> [] | Val d \<Rightarrow> map (\<lambda>v. v / d) (unmasked b col))"

fun px_min :: "pixel \<Rightarrow> pixel \<Rightarrow> pixel" where
  "px_min (Val x) (Val y) = Val (min x y)"
| "px_min (Val x) Masked = Val x"
| "px_min Masked (Val y) = Val y"
| "px_min Masked Masked = Masked"

text \<open>An observation with every band divided by the baseline value of that band.\<close>

definition divImg :: "(string \<Rightarrow> pixel) \<Rightarrow> image \<Rightarrow> image" where
  "divImg P IMG = IMG\<lparr>bands := map (\<lambda>(n, v). (n, lift2 (/) v (P n))) (bands IMG)\<rparr>"

definition deviation_col :: "image list" where
  "deviation_col = [observation 0.4 (2019, 7, 1), observation 0.2 (2018, 7, 10),
     observation 0.3 (2017, 8, 1), observation 0.1 (2020, 7, 1), observation 0.06 (2021, 7, 1)]"

section \<open>Properties\<close>

subsection \<open>The two quality masks\<close>

lemma and_exp_cases: "(n::int) AND 2 ^ k = 0 \<or> n AND 2 ^ k = 2 ^ k"
proof (cases "bit n k")
  case True
  have "n AND 2 ^ k = 2 ^ k"
    by (rule bit_eqI) (use True in \<open>auto simp: bit_and_iff bit_exp_iff\<close>)
  then show ?thesis by simp
next
  case False
  then show ?thesis by (simp add: and_exp_eq_0_iff_not_bit)
qed

lemma and_128: "(n::int) AND 128 = 0 \<or> n AND 128 = 128"
  using and_exp_cases [of n 7] by simp

lemma and_256: "(n::int) AND 256 = 0 \<or> n AND 256 = 256"
  using and_exp_cases [of n 8] by simp

text \<open>The confidence term of \<^verbatim>\<open>SLC_lsMask\<close> reads the masks 128 and 256, that is bits 7
  and 8. The sum 256 interpolates to \<open>1 + 127/128\<close>, which the cast cuts to 1, so the
  term is 1 only when bit 7 (water) and bit 8 are both set.\<close>

lemma cloudConfidenceMedHigh_Val:
  "cloudConfidenceMedHigh (Val x) =
     Val (of_bool_real (\<lfloor>x\<rfloor> AND 128 = 128 \<and> \<lfloor>x\<rfloor> AND 256 = 256))"
  using and_128 [of "\<lfloor>x\<rfloor>"] and_256 [of "\<lfloor>x\<rfloor>"]
  by (auto simp: cloudConfidenceMedHigh_def cloudConfidence_def px_gte_def px_int_def
      interpolate_def px_add_def toInt_def of_bool_real_def bitwiseAnd_def)

lemma SLC_mask_eq: "SLC_mask q = lsMaskNew_mask q"
proof (cases q)
  case Masked
  then show ?thesis
    by (simp add: SLC_mask_def lsMaskNew_mask_def px_or_def bitwiseAnd_def)
next
  case (Val x)
  show ?thesis
    unfolding Val SLC_mask_def lsMaskNew_mask_def cloudConfidenceMedHigh_Val
    by (auto simp: px_or_def bitwiseAnd_def of_bool_real_def water_def)
qed

text \<open>
  C3. A pixel whose cloud-confidence bits 8 and 9 are both set (QA value 768, confidence
  3) and that has no other defect bit is left clear by the degraded-sensor mask, and so
  is one with bit 9 alone (QA value 512, confidence 2): for both the mask band of
  \<^verbatim>\<open>SLC_lsMask\<close> is 0. On every image \<^verbatim>\<open>SLC_lsMask\<close> returns what \<^verbatim>\<open>lsMaskNew\<close> returns.
\<close>

theorem SLC_lsMask_keeps_confident_cloud:
  "SLC_mask (Val 768) = Val 0 \<and> px_not (SLC_mask (Val 768)) = Val 1
   \<and> SLC_mask (Val 512) = Val 0 \<and> px_not (SLC_mask (Val 512)) = Val 1
   \<and> SLC_lsMask img = lsMaskNew img"
proof -
  have a: "lsMaskNew_mask (Val 768) = Val 0" "lsMaskNew_mask (Val 512) = Val 0"
    by (simp_all add: lsMaskNew_mask_def px_or_def bitwiseAnd_def cloud_def dilatedCloud_def
        cloudShadow_def water_def snow_def of_bool_real_def)
  have b: "SLC_lsMask img = lsMaskNew img"
    by (simp add: SLC_lsMask_def lsMaskNew_def SLC_mask_eq)
  show ?thesis
    by (simp add: SLC_mask_eq a b px_not_def of_bool_real_def)
qed

subsection \<open>Band lists\<close>

lemma pick_names: "pick bs ns = Some r \<Longrightarrow> map fst r = ns"
  by (induction ns arbitrary: r) (auto split: option.splits)

lemma pick_Some: "list_all (\<lambda>n. map_of bs n \<noteq> None) ns \<Longrightarrow> \<exists>r. pick bs ns = Some r"
  by (induction ns) auto

lemma pick_lookup: "pick bs ns = Some r \<Longrightarrow> n \<in> set ns \<Longrightarrow> map_of r n = map_of bs n"
  by (induction ns arbitrary: r) (auto split: option.splits if_splits)

lemma pick_None: "pick bs ns = Some r \<Longrightarrow> n \<in> set ns \<Longrightarrow> map_of bs n \<noteq> None"
  by (induction ns arbitrary: r) (auto split: option.splits if_splits)

lemma select_bandNames: "select ns img = Some r \<Longrightarrow> bandNames r = ns"
  by (auto simp: select_def bandNames_def pick_names)

lemma select_band: "select ns img = Some r \<Longrightarrow> n \<in> set ns \<Longrightarrow> band r n = band img n"
  by (auto simp: select_def band_def pick_lookup)

lemma select_Some: "list_all (\<lambda>n. band img n \<noteq> None) ns \<Longrightarrow> \<exists>r. select ns img = Some r"
  using pick_Some [of "bands img" ns] by (auto simp: select_def band_def)

lemma select_needs: "select ns img = Some r \<Longrightarrow> n \<in> set ns \<Longrightarrow> band img n \<noteq> None"
  using pick_None by (auto simp: select_def band_def)

lemma select1: "select [n] img = (case band img n of None \<Rightarrow> None | Some v \<Rightarrow> Some (img\<lparr>bands := [(n, v)]\<rparr>))"
  by (simp add: select_def band_def split: option.splits)

lemma selectFirst_bandNames: "selectFirst n img = Some r \<Longrightarrow> bandNames r = [n]"
  by (auto simp: selectFirst_def bandNames_def split: list.splits)

lemma expression_bands: "expression img e vars = Some r \<Longrightarrow> \<exists>v. bands r = [(''constant'', v)]"
  by (auto simp: expression_def)

lemma ndIndex_eq:
  "ndIndex a b name img =
     (case band img a of None \<Rightarrow> None
      | Some x \<Rightarrow> (case band img b of None \<Rightarrow> None
        | Some y \<Rightarrow> Some \<lparr>bands = [(name, normDiff x y)], time_start = None, inBounds = inBounds img\<rparr>))"
  by (simp add: ndIndex_def normalizedDifference_def rename_def toFloat_def split: option.splits)

lemma getX_names:
  "getEVI img = Some r \<Longrightarrow> bandNames r = [''evi'']"
  "getMIRBI img = Some r \<Longrightarrow> bandNames r = [''mirbi'']"
  "getBAI img = Some r \<Longrightarrow> bandNames r = [''bai'']"
  "getBAIMs img = Some r \<Longrightarrow> bandNames r = [''baims'']"
  "getCSI img = Some r \<Longrightarrow> bandNames r = [''csi'']"
  "getBSI img = Some r \<Longrightarrow> bandNames r = [''bsi'']"
  "getMSAVI img = Some r \<Longrightarrow> bandNames r = [''msavi'']"
  "getTCB img = Some r \<Longrightarrow> bandNames r = [''tcb'']"
  "getTCG img = Some r \<Longrightarrow> bandNames r = [''tcg'']"
  "getTCW img = Some r \<Longrightarrow> bandNames r = [''tcw'']"
  by (auto simp: getEVI_def getMIRBI_def getBAI_def getBAIMs_def getCSI_def getBSI_def getMSAVI_def
      getTCB_def getTCG_def getTCW_def selectFirst_bandNames split: bind_splits)

lemma bandNames_addBands: "bandNames (addBands a b) = bandNames a @ bandNames b"
  by (simp add: addBands_def bandNames_def)

lemma bandNames_copyProperties: "bandNames (copyProperties a b) = bandNames a"
  by (simp add: copyProperties_def bandNames_def)

lemma Indices_bandNames:
  assumes "Indices img = Some r"
  shows "bandNames r = allVariables @ [''qa_pixel'']"
  using assms
  apply (simp add: Indices_def ndIndex_eq split: bind_splits option.splits)
  apply (auto simp: bandNames_copyProperties bandNames_addBands allVariables_def
      dest!: getX_names select_bandNames)
  apply (simp add: bandNames_def)
  done

lemma band_None_iff: "band img n = None \<longleftrightarrow> n \<notin> set (bandNames img)"
  by (simp add: band_def bandNames_def map_of_eq_None_iff)

lemma hasBands_iff: "hasBands ns img \<longleftrightarrow> set ns \<subseteq> set (bandNames img)"
  by (auto simp: hasBands_def list_all_iff band_None_iff)

lemma select_succeeds: "hasBands ns img \<Longrightarrow> \<exists>r. select ns img = Some r"
  unfolding hasBands_def by (rule select_Some)

lemma select_Some_iff: "(\<exists>r. select ns img = Some r) \<longleftrightarrow> hasBands ns img"
  using select_succeeds [of ns img] select_needs [of ns img]
  by (auto simp: hasBands_def list_all_iff)

lemma bandNames_mapBands: "bandNames (mapBands f img) = bandNames img"
  by (simp add: mapBands_def bandNames_def comp_def case_prod_unfold)

lemma bandNames_updateMask: "bandNames (updateMask img m) = bandNames img"
  by (simp add: updateMask_def bandNames_mapBands)

lemma bandNames_toFloat: "bandNames (toFloat img) = bandNames img"
  by (simp add: toFloat_def)

lemma rename_bandNames: "rename ns img = Some r \<Longrightarrow> bandNames r = ns"
  by (auto simp: rename_def bandNames_def split: if_splits)

lemma select2_succeeds:
  assumes a: "hasBands ns img" and l: "length new = length ns"
  shows "\<exists>r. select2 ns new img = Some r"
proof -
  from select_succeeds [OF a] obtain s where s: "select ns img = Some s" ..
  have "length (bandNames s) = length ns"
    using select_bandNames [OF s] by simp
  then have "length (bands s) = length ns"
    by (simp add: bandNames_def)
  then show ?thesis by (simp add: select2_def s rename_def l)
qed

lemma select2_bandNames: "select2 ns new img = Some r \<Longrightarrow> bandNames r = new"
  by (auto simp: select2_def rename_bandNames split: bind_splits)

lemma hasBandsD: "hasBands ns img \<Longrightarrow> n \<in> set ns \<Longrightarrow> \<exists>v. band img n = Some v"
  by (auto simp: hasBands_def list_all_iff)

lemma getX_succeeds:
  assumes "hasBands [''blue'', ''green'', ''red'', ''nir'', ''sswir'', ''lswir''] img"
  shows "\<exists>r. getEVI img = Some r" "\<exists>r. getMIRBI img = Some r" "\<exists>r. getBAI img = Some r"
    "\<exists>r. getBAIMs img = Some r" "\<exists>r. getCSI img = Some r" "\<exists>r. getBSI img = Some r"
    "\<exists>r. getMSAVI img = Some r" "\<exists>r. getTCB img = Some r" "\<exists>r. getTCG img = Some r"
    "\<exists>r. getTCW img = Some r"
proof -
  from assms obtain b g r n s l where b:
    "band img ''blue'' = Some b" "band img ''green'' = Some g" "band img ''red'' = Some r"
    "band img ''nir'' = Some n" "band img ''sswir'' = Some s" "band img ''lswir'' = Some l"
    by (auto simp: hasBands_def)
  show "\<exists>r. getEVI img = Some r"
    by (simp add: getEVI_def select1 expression_def firstBand_def selectFirst_def toFloat_def b)
  show "\<exists>r. getMIRBI img = Some r"
    by (simp add: getMIRBI_def select1 expression_def firstBand_def selectFirst_def toFloat_def b)
  show "\<exists>r. getBAI img = Some r"
    by (simp add: getBAI_def select1 expression_def firstBand_def selectFirst_def toFloat_def b)
  show "\<exists>r. getBAIMs img = Some r"
    by (simp add: getBAIMs_def select1 expression_def firstBand_def selectFirst_def toFloat_def b)
  show "\<exists>r. getCSI img = Some r"
    by (simp add: getCSI_def select1 expression_def firstBand_def selectFirst_def toFloat_def b)
  show "\<exists>r. getBSI img = Some r"
    by (simp add: getBSI_def select1 expression_def firstBand_def selectFirst_def toFloat_def b)
  show "\<exists>r. getMSAVI img = Some r"
    by (simp add: getMSAVI_def select1 expression_def firstBand_def selectFirst_def toFloat_def b)
  show "\<exists>r. getTCB img = Some r"
    by (simp add: getTCB_def tcVars_def select1 expression_def firstBand_def selectFirst_def toFloat_def b)
  show "\<exists>r. getTCG img = Some r"
    by (simp add: getTCG_def tcVars_def select1 expression_def firstBand_def selectFirst_def toFloat_def b)
  show "\<exists>r. getTCW img = Some r"
    by (simp add: getTCW_def tcVars_def select1 expression_def firstBand_def selectFirst_def toFloat_def b)
qed

lemma Indices_succeeds:
  assumes "hasBands canonical img"
  shows "\<exists>r. Indices img = Some r"
proof -
  have six: "hasBands [''blue'', ''green'', ''red'', ''nir'', ''sswir'', ''lswir''] img"
    using assms by (simp add: canonical_def hasBands_def)
  from assms obtain g r n s l q where b:
    "band img ''green'' = Some g" "band img ''red'' = Some r"
    "band img ''nir'' = Some n" "band img ''sswir'' = Some s" "band img ''lswir'' = Some l"
    "band img ''qa_pixel'' = Some q"
    by (auto simp: hasBands_def canonical_def)
  from getX_succeeds [OF six] obtain e1 e2 e3 e4 e5 e6 e7 e8 e9 e10 where
    "getEVI img = Some e1" "getMIRBI img = Some e2" "getBAI img = Some e3"
    "getBAIMs img = Some e4" "getCSI img = Some e5" "getBSI img = Some e6"
    "getMSAVI img = Some e7" "getTCB img = Some e8" "getTCG img = Some e9"
    "getTCW img = Some e10" by blast
  then show ?thesis
    by (simp add: Indices_def ndIndex_eq b select1)
qed

lemma lsMaskNew_bandNames: "lsMaskNew img = Some r \<Longrightarrow> bandNames r = allVariables"
  by (auto simp: lsMaskNew_def Let_def bandNames_copyProperties select_bandNames split: bind_splits)

lemma SLC_lsMask_bandNames: "SLC_lsMask img = Some r \<Longrightarrow> bandNames r = allVariables"
  by (auto simp: SLC_lsMask_def Let_def bandNames_copyProperties select_bandNames split: bind_splits)

lemma lsMaskNew_succeeds:
  assumes "bandNames img = allVariables @ [''qa_pixel'']"
  shows "\<exists>r. lsMaskNew img = Some r"
proof -
  obtain q where q: "band img ''qa_pixel'' = Some q"
    using band_None_iff [of img "''qa_pixel''"] assms by auto
  have "hasBands allVariables (updateMask img (px_not (lsMaskNew_mask q)))"
    unfolding hasBands_iff bandNames_updateMask assms by auto
  from select_succeeds [OF this] show ?thesis
    by (auto simp: lsMaskNew_def q)
qed

lemma convertBandsls89_bandNames:
  "convertBandsls89 raw = Some r \<Longrightarrow>
     bandNames r = [''SR_B2'', ''SR_B3'', ''SR_B4'', ''SR_B5'', ''SR_B6'', ''SR_B7'', ''QA_PIXEL'']"
  by (auto simp: convertBandsls89_def Let_def bandNames_copyProperties bandNames_addBands
      bandNames_toFloat bandNames_mapBands dest!: select_bandNames split: bind_splits)

lemma convertBandsls89_succeeds:
  assumes "hasBands [''SR_B2'', ''SR_B3'', ''SR_B4'', ''SR_B5'', ''SR_B6'', ''SR_B7'', ''QA_PIXEL''] raw"
  shows "\<exists>r. convertBandsls89 raw = Some r"
proof -
  have "hasBands [''QA_PIXEL''] raw"
    "hasBands [''SR_B2'', ''SR_B3'', ''SR_B4'', ''SR_B5'', ''SR_B6'', ''SR_B7''] raw"
    using assms by (simp_all add: hasBands_def)
  then have "\<exists>r. select [''QA_PIXEL''] raw = Some r"
    "\<exists>r. select [''SR_B2'', ''SR_B3'', ''SR_B4'', ''SR_B5'', ''SR_B6'', ''SR_B7''] raw = Some r"
    by (simp_all add: select_succeeds)
  then show ?thesis by (auto simp: convertBandsls89_def)
qed

lemma ls89Rename_bandNames: "ls89Rename img = Some r \<Longrightarrow> bandNames r = canonical"
  by (auto simp: ls89Rename_def canonical_def bandNames_copyProperties dest!: select2_bandNames
      split: bind_splits)

lemma ls89_bandNames: "ls89 raw = Some r \<Longrightarrow> bandNames r = allVariables"
  by (auto simp: ls89_def lsMaskNew_bandNames split: bind_splits)

lemma ls89_succeeds:
  assumes "hasBands [''SR_B2'', ''SR_B3'', ''SR_B4'', ''SR_B5'', ''SR_B6'', ''SR_B7'', ''QA_PIXEL''] raw"
  shows "\<exists>r. ls89 raw = Some r"
proof -
  from convertBandsls89_succeeds [OF assms] obtain c where c: "convertBandsls89 raw = Some c" ..
  have "hasBands [''SR_B2'', ''SR_B3'', ''SR_B4'', ''SR_B5'', ''SR_B6'', ''SR_B7'', ''QA_PIXEL''] c"
    unfolding hasBands_iff convertBandsls89_bandNames [OF c] by simp
  from select2_succeeds [OF this, of "[''blue'', ''green'', ''red'', ''nir'', ''sswir'', ''lswir'', ''qa_pixel'']"]
  obtain r where r: "ls89Rename c = Some r"
    by (auto simp: ls89Rename_def)
  have "hasBands canonical r"
    unfolding hasBands_iff ls89Rename_bandNames [OF r] by simp
  from Indices_succeeds [OF this] obtain i where i: "Indices r = Some i" ..
  from lsMaskNew_succeeds [OF Indices_bandNames [OF i]] obtain m where "lsMaskNew i = Some m" ..
  then show ?thesis by (simp add: ls89_def c r i)
qed

lemma convertBandsls457_bandNames:
  "convertBandsls457 raw = Some r \<Longrightarrow>
     bandNames r = [''SR_B1'', ''SR_B2'', ''SR_B3'', ''SR_B4'', ''SR_B5'', ''SR_B7'', ''QA_PIXEL'']"
  by (auto simp: convertBandsls457_def Let_def bandNames_copyProperties bandNames_addBands
      bandNames_toFloat bandNames_mapBands dest!: select_bandNames split: bind_splits)

lemma ls457_bandNames: "ls457 raw = Some r \<Longrightarrow> bandNames r = allVariables"
  by (auto simp: ls457_def lsMaskNew_bandNames split: bind_splits)

lemma ls7bad_bandNames: "ls7bad raw = Some r \<Longrightarrow> bandNames r = allVariables"
  by (auto simp: ls7bad_def SLC_lsMask_bandNames split: bind_splits)

lemma mapCol_set: "mapCol f xs = Some ys \<Longrightarrow> y \<in> set ys \<Longrightarrow> \<exists>x\<in>set xs. f x = Some y"
  by (induction xs arbitrary: ys) (auto split: option.splits)

lemma mapCol_length: "mapCol f xs = Some ys \<Longrightarrow> length ys = length xs"
  by (induction xs arbitrary: ys) (auto split: option.splits)

lemma lsCol_bandNames:
  assumes "lsCol ar = Some col" and "obs \<in> set col"
  shows "bandNames obs = allVariables"
  using assms
  by (auto simp: lsCol_def merge_def split: bind_splits
      dest!: mapCol_set dest: ls89_bandNames ls457_bandNames ls7bad_bandNames)

lemma Indices_nd:
  assumes "Indices img = Some r"
  shows "\<exists>nir lswir sswir red green.
     band img ''nir'' = Some nir \<and> band img ''lswir'' = Some lswir
     \<and> band img ''sswir'' = Some sswir \<and> band img ''red'' = Some red
     \<and> band img ''green'' = Some green
     \<and> band r ''nbr'' = Some (normDiff nir lswir)
     \<and> band r ''nbr2'' = Some (normDiff sswir lswir)
     \<and> band r ''ndvi'' = Some (normDiff nir red)
     \<and> band r ''ndmi'' = Some (normDiff nir sswir)
     \<and> band r ''ndwi'' = Some (normDiff green nir)"
  using assms
  by (auto simp: Indices_def ndIndex_eq band_def copyProperties_def addBands_def
      split: bind_splits option.splits)

lemma normDiff_scale:
  assumes "0 < c"
  shows "normDiff (lift1 ((*) c) a) (lift1 ((*) c) b) = normDiff a b"
proof (cases a; cases b)
  fix x y assume ab: "a = Val x" "b = Val y"
  have "(c * x - c * y) / (c * x + c * y) = (x - y) / (x + y)"
  proof -
    have "(c * x - c * y) / (c * x + c * y) = (c * (x - y)) / (c * (x + y))"
      by (simp add: algebra_simps)
    also have "\<dots> = (x - y) / (x + y)"
      using assms by simp
    finally show ?thesis .
  qed
  moreover have "c * x < 0 \<longleftrightarrow> x < 0" "c * y < 0 \<longleftrightarrow> y < 0"
    using assms by (simp_all add: mult_less_0_iff)
  ultimately show ?thesis by (simp add: ab)
qed simp_all

lemma normDiff_range:
  assumes "0 \<le> x" "0 \<le> y" "x + y \<noteq> 0"
  shows "\<exists>v. normDiff (Val x) (Val y) = Val v \<and> - 1 \<le> v \<and> v \<le> 1"
proof -
  have pos: "0 < x + y" using assms by linarith
  have "- 1 \<le> (x - y) / (x + y)"
    using pos assms by (simp add: pos_le_divide_eq)
  moreover have "(x - y) / (x + y) \<le> 1"
    using pos assms by (simp add: pos_divide_le_eq)
  ultimately show ?thesis using assms by (simp add: not_less)
qed

text \<open>
  C4 (as the code has it). \<^verbatim>\<open>Indices\<close> returns the 15 index bands followed by the QA
  band, 16 bands in all. The quality mask that every sensor's chain applies next selects
  \<^verbatim>\<open>allVariables\<close> only, so each observation of the merged collection, the one the
  compositor reads, has exactly the 15 index bands and no QA band.
\<close>

theorem observation_band_lists:
  "(Indices img = Some i \<longrightarrow>
      bandNames i = allVariables @ [''qa_pixel''] \<and> length (bandNames i) = 16)
   \<and> (lsCol ar = Some imgCol \<longrightarrow>
      (\<forall>obs\<in>set imgCol. bandNames obs = allVariables \<and> length (bandNames obs) = 15
         \<and> ''qa_pixel'' \<notin> set (bandNames obs)))"
proof -
  have n: "length allVariables = 15" "''qa_pixel'' \<notin> set allVariables"
    by (simp_all add: allVariables_def)
  show ?thesis
    using n by (auto simp: Indices_bandNames lsCol_bandNames)
qed

lemma lsCol_archive0: "\<exists>r. ls89 raw0 = Some r \<and> lsCol archive0 = Some [r]"
proof -
  have "\<exists>r. ls89 raw0 = Some r"
    by (rule ls89_succeeds) (simp add: raw0_def hasBands_def band_def)
  then obtain r where r: "ls89 raw0 = Some r" ..
  have "inBounds raw0" by (simp add: raw0_def)
  then have "lsCol archive0 = Some [r]"
    by (simp add: lsCol_def archive0_def filterBounds_def filterDate_def merge_def r)
  with r show ?thesis by blast
qed

lemma Indices_canon0: "\<exists>r. Indices canon0 = Some r"
  by (rule Indices_succeeds) (simp add: canon0_def hasBands_def canonical_def band_def)

theorem observation_band_lists_witness:
  "Indices canon0 \<noteq> None
   \<and> bandNames (the (Indices canon0)) = allVariables @ [''qa_pixel'']
   \<and> length (bandNames (the (Indices canon0))) = 16
   \<and> lsCol archive0 \<noteq> None \<and> length (the (lsCol archive0)) = 1
   \<and> list_all (\<lambda>obs. bandNames obs = allVariables \<and> length (bandNames obs) = 15)
        (the (lsCol archive0))"
proof -
  obtain i where i: "Indices canon0 = Some i" using Indices_canon0 ..
  obtain r where r: "lsCol archive0 = Some [r]" using lsCol_archive0 by blast
  have "length allVariables = 15" by (simp add: allVariables_def)
  then show ?thesis
    using observation_band_lists [of canon0 i archive0 "[r]"] by (simp add: i r)
qed

text \<open>The observation that the sample archive yields has 15 bands, not 16.\<close>

theorem observation_has_15_bands:
  "map_option (map (\<lambda>obs. length (bandNames obs))) (lsCol archive0) = Some [15]"
proof -
  obtain r where r: "ls89 raw0 = Some r" "lsCol archive0 = Some [r]"
    using lsCol_archive0 by blast
  have "length allVariables = 15" by (simp add: allVariables_def)
  then show ?thesis by (simp add: r ls89_bandNames [OF r(1)])
qed

text \<open>
  C8. The five normalised-difference bands of \<^verbatim>\<open>Indices\<close> are \<open>normDiff\<close> of their band
  pairs. Scaling both inputs by one positive constant leaves \<open>normDiff\<close> unchanged, and
  for inputs that are not negative and do not sum to 0 its value lies between -1 and 1.
\<close>

theorem normalized_difference_scaling_and_range:
  assumes "Indices img = Some r" and "0 < c"
  shows "(\<exists>nir lswir sswir red green.
       band img ''nir'' = Some nir \<and> band img ''lswir'' = Some lswir
       \<and> band img ''sswir'' = Some sswir \<and> band img ''red'' = Some red
       \<and> band img ''green'' = Some green
       \<and> band r ''nbr'' = Some (normDiff nir lswir)
       \<and> band r ''nbr2'' = Some (normDiff sswir lswir)
       \<and> band r ''ndvi'' = Some (normDiff nir red)
       \<and> band r ''ndmi'' = Some (normDiff nir sswir)
       \<and> band r ''ndwi'' = Some (normDiff green nir))
     \<and> normDiff (lift1 ((*) c) a) (lift1 ((*) c) b) = normDiff a b
     \<and> (0 \<le> x \<and> 0 \<le> y \<and> x + y \<noteq> 0 \<longrightarrow>
          (\<exists>v. normDiff (Val x) (Val y) = Val v \<and> - 1 \<le> v \<and> v \<le> 1))"
  using Indices_nd [OF assms(1)] normDiff_scale [OF assms(2), of a b] normDiff_range [of x y]
  by blast

theorem normalized_difference_scaling_and_range_witness:
  "Indices canon0 \<noteq> None
   \<and> band (the (Indices canon0)) ''nbr'' = Some (normDiff (Val 0.3) (Val 0.1))
   \<and> band (the (Indices canon0)) ''ndwi'' = Some (normDiff (Val 0.05) (Val 0.3))
   \<and> normDiff (lift1 ((*) 2) (Val 0.3)) (lift1 ((*) 2) (Val 0.1)) = normDiff (Val 0.3) (Val 0.1)
   \<and> (\<exists>v. normDiff (Val 0.3) (Val 0.1) = Val v \<and> - 1 \<le> v \<and> v \<le> 1)"
proof -
  obtain i where i: "Indices canon0 = Some i" using Indices_canon0 ..
  have b: "band canon0 ''nir'' = Some (Val 0.3)" "band canon0 ''lswir'' = Some (Val 0.1)"
    "band canon0 ''green'' = Some (Val 0.05)"
    by (simp_all add: canon0_def band_def)
  have "(0::real) < 2" by simp
  from normalized_difference_scaling_and_range [OF i this, of "Val 0.3" "Val 0.1" "0.3" "0.1"]
  show ?thesis by (auto simp: i b)
qed

subsection \<open>Burn metrics on the NBR bands\<close>

lemma band_addBands_single:
  "band (addBands \<lparr>bands = [(name, v)], time_start = t, inBounds = ib\<rparr> prev) n =
     (if n = name then Some v else band prev n)"
  by (simp add: band_def addBands_def)

lemma burnStep_eval:
  assumes "eval prev [] e = Some v"
  shows "\<exists>r. burnStep e name prev = Some r \<and> band r name = Some (px_int v)
     \<and> (\<forall>n. n \<noteq> name \<longrightarrow> band r n = band prev n)
     \<and> bandNames r = name # bandNames prev"
  using assms
  by (simp add: burnStep_def expression_def rename_def img_toInt_def mapBands_def
      band_def addBands_def bandNames_def px_int_def)

lemma burnStep_None: "eval prev [] e = None \<Longrightarrow> burnStep e name prev = None"
  by (simp add: burnStep_def expression_def)

lemma burnIndices3_eval:
  assumes "band prev ''pre_nbr'' = Some v"
  shows "\<exists>r. burnIndices3 prev = Some r
     \<and> band r ''pre_nbr3'' = Some (px_sqrt (lift1 abs (px_cond (lift2 (\<lambda>r s. of_bool_real (r < s)) (lift1 abs v) (Val 0.001)) (Val 0.001) v)))
     \<and> (\<forall>n. n \<noteq> ''pre_nbr3'' \<longrightarrow> band r n = band prev n)
     \<and> bandNames r = ''pre_nbr3'' # bandNames prev"
  using assms
  by (simp add: burnIndices3_def expression_def rename_def mapBands_def toFloat_def
      band_def addBands_def bandNames_def)

lemma burn_chain_nbr:
  assumes pre: "band fi ''pre_nbr'' = Some (Val p)" and post: "band fi ''post_nbr'' = Some (Val q)"
  shows "\<exists>b1 b2 b3 b4.
     burnIndices fi = Some b1 \<and> burnIndices2 b1 = Some b2
     \<and> burnIndices3 b2 = Some b3 \<and> burnIndices4 b3 = Some b4
     \<and> band b4 ''dnbr'' = Some (Val (of_int (toInt ((p - q) * 1000))))
     \<and> band b4 ''rbr'' = Some (Val (of_int (toInt (of_int (toInt ((p - q) * 1000)) / (p + 1.001)))))
     \<and> band b4 ''pre_nbr3'' = Some (Val (pre_nbr3_of p))
     \<and> band b4 ''rdnbr'' = Some (Val (of_int (toInt (of_int (toInt ((p - q) * 1000)) / pre_nbr3_of p))))"
proof -
  let ?d = "of_int (toInt ((p - q) * 1000)) :: real"
  have "eval fi [] (Mul (diffExpr ''nbr'') (N 1000)) = Some (Val ((p - q) * 1000))"
    by (simp add: diffExpr_def pre post)
  from burnStep_eval [OF this, of "''dnbr''"] obtain b1 where b1:
    "burnIndices fi = Some b1" "band b1 ''dnbr'' = Some (Val ?d)"
    "band b1 ''pre_nbr'' = Some (Val p)"
    by (auto simp: burnIndices_def px_int_def pre)
  have "eval b1 [] (Div (B ''dnbr'') (Add (B ''pre_nbr'') (N 1.001))) = Some (Val (?d / (p + 1.001)))"
    by (simp add: b1)
  from burnStep_eval [OF this, of "''rbr''"] obtain b2 where b2:
    "burnIndices2 b1 = Some b2" "band b2 ''rbr'' = Some (Val (of_int (toInt (?d / (p + 1.001)))))"
    "band b2 ''dnbr'' = Some (Val ?d)" "band b2 ''pre_nbr'' = Some (Val p)"
    by (auto simp: burnIndices2_def px_int_def b1)
  from burnIndices3_eval [OF b2(4)] obtain b3 where b3:
    "burnIndices3 b2 = Some b3" "band b3 ''pre_nbr3'' = Some (Val (pre_nbr3_of p))"
    "band b3 ''rbr'' = Some (Val (of_int (toInt (?d / (p + 1.001)))))"
    "band b3 ''dnbr'' = Some (Val ?d)"
    by (auto simp: b2 pre_nbr3_of_def of_bool_real_def)
  have "eval b3 [] (Div (B ''dnbr'') (B ''pre_nbr3'')) = Some (Val (?d / pre_nbr3_of p))"
    by (simp add: b3)
  from burnStep_eval [OF this, of "''rdnbr''"] obtain b4 where b4:
    "burnIndices4 b3 = Some b4" "band b4 ''rdnbr'' = Some (Val (of_int (toInt (?d / pre_nbr3_of p))))"
    "band b4 ''pre_nbr3'' = Some (Val (pre_nbr3_of p))"
    "band b4 ''rbr'' = Some (Val (of_int (toInt (?d / (p + 1.001)))))"
    "band b4 ''dnbr'' = Some (Val ?d)"
    by (auto simp: burnIndices4_def px_int_def b3)
  show ?thesis using b1 b2 b3 b4 by blast
qed

lemma toInt_700: "toInt ((0.6 - (- 0.1)) * 1000) = 700"
  by (simp add: toInt_def)

lemma toInt_437: "toInt (700 / (0.6 + 1.001)) = 437"
  by (simp add: toInt_def)

lemma sqrt_06: "0.7745 < sqrt 0.6" "sqrt 0.6 < 0.7747"
  by (rule real_less_rsqrt, simp add: power2_eq_square)
     (rule real_less_lsqrt, simp_all add: power2_eq_square)

lemma toInt_903: "toInt (700 / sqrt 0.6) = 903"
proof -
  have pos: "0 < sqrt (0.6::real)" by simp
  have a: "sqrt 0.6 \<le> (700 / 903 :: real)"
    by (rule real_le_lsqrt) (simp_all add: power2_eq_square)
  have b: "(700 / 904 :: real) < sqrt 0.6"
    by (rule real_less_rsqrt) (simp add: power2_eq_square)
  have "903 \<le> 700 / sqrt (0.6::real)"
    using a pos by (simp add: pos_le_divide_eq mult.commute)
  moreover have "700 / sqrt (0.6::real) < 904"
    using b pos by (simp add: pos_divide_less_eq mult.commute)
  ultimately have "\<lfloor>700 / sqrt (0.6::real)\<rfloor> = 903"
    by (simp add: floor_eq_iff)
  moreover have "0 \<le> 700 / sqrt (0.6::real)" by simp
  ultimately show ?thesis by (simp add: toInt_def)
qed

lemma sqrt_0001: "0.0316 < sqrt 0.001" "sqrt 0.001 < 0.0317"
  by (rule real_less_rsqrt, simp add: power2_eq_square)
     (rule real_less_lsqrt, simp_all add: power2_eq_square)

lemma pre_nbr3_of_ge: "sqrt 0.001 \<le> pre_nbr3_of p"
  unfolding pre_nbr3_of_def by (rule real_sqrt_le_mono) auto

text \<open>
  C2. With pre-fire NBR \<open>p\<close> and post-fire NBR \<open>q\<close> at the pixel, the first four steps
  of the calculator succeed and give \<open>dnbr\<close> = \<open>(p - q) * 1000\<close> cast to integer, \<open>rbr\<close> =
  \<open>dnbr / (p + 1.001)\<close> cast to integer, and \<open>rdnbr\<close> = \<open>dnbr / pre_nbr3\<close> cast to
  integer. For \<open>p = 0.6\<close> and \<open>q = -0.1\<close> these are 700, 437 and 903, with \<open>pre_nbr3\<close> =
  \<open>sqrt 0.6\<close> between 0.7745 and 0.7747.
\<close>

theorem burn_metrics_nbr:
  assumes "band fi ''pre_nbr'' = Some (Val p)" and "band fi ''post_nbr'' = Some (Val q)"
  shows "(\<exists>b1 b2 b3 b4.
       burnIndices fi = Some b1 \<and> burnIndices2 b1 = Some b2
       \<and> burnIndices3 b2 = Some b3 \<and> burnIndices4 b3 = Some b4
       \<and> band b4 ''dnbr'' = Some (Val (of_int (toInt ((p - q) * 1000))))
       \<and> band b4 ''rbr''
           = Some (Val (of_int (toInt (of_int (toInt ((p - q) * 1000)) / (p + 1.001)))))
       \<and> band b4 ''pre_nbr3'' = Some (Val (pre_nbr3_of p))
       \<and> band b4 ''rdnbr''
           = Some (Val (of_int (toInt (of_int (toInt ((p - q) * 1000)) / pre_nbr3_of p)))))
     \<and> toInt ((0.6 - (- 0.1)) * 1000) = 700
     \<and> toInt (700 / (0.6 + 1.001)) = 437
     \<and> pre_nbr3_of 0.6 = sqrt 0.6 \<and> 0.7745 < sqrt 0.6 \<and> sqrt 0.6 < 0.7747
     \<and> toInt (700 / pre_nbr3_of 0.6) = 903"
proof -
  have "pre_nbr3_of 0.6 = sqrt 0.6" by (simp add: pre_nbr3_of_def)
  then show ?thesis
    using burn_chain_nbr [OF assms] toInt_700 toInt_437 sqrt_06 toInt_903 by simp
qed

lemma band_composite0:
  "band (composite0 p q) ''pre_nbr'' = Some (Val p)"
  "band (composite0 p q) ''post_nbr'' = Some (Val q)"
  by (simp_all add: composite0_def band_def)

theorem burn_metrics_nbr_witness:
  "\<exists>b1 b2 b3 b4.
     burnIndices (composite0 0.6 (- 0.1)) = Some b1 \<and> burnIndices2 b1 = Some b2
     \<and> burnIndices3 b2 = Some b3 \<and> burnIndices4 b3 = Some b4
     \<and> band b4 ''dnbr'' = Some (Val 700) \<and> band b4 ''rbr'' = Some (Val 437)
     \<and> band b4 ''pre_nbr3'' = Some (Val (sqrt 0.6)) \<and> band b4 ''rdnbr'' = Some (Val 903)"
proof -
  note inst = burn_metrics_nbr [OF band_composite0, of "0.6" "- 0.1"]
  have t: "toInt ((0.6 - (- 0.1)) * 1000) = 700" "toInt (700 / (0.6 + 1.001)) = 437"
    "toInt (700 / pre_nbr3_of 0.6) = 903" "pre_nbr3_of 0.6 = sqrt 0.6"
    using inst by blast+
  from inst obtain b1 b2 b3 b4 where c:
    "burnIndices (composite0 0.6 (- 0.1)) = Some b1" "burnIndices2 b1 = Some b2"
    "burnIndices3 b2 = Some b3" "burnIndices4 b3 = Some b4"
    and b: "band b4 ''dnbr'' = Some (Val (of_int (toInt ((0.6 - (- 0.1)) * 1000))))"
    "band b4 ''rbr''
       = Some (Val (of_int (toInt (of_int (toInt ((0.6 - (- 0.1)) * 1000)) / (0.6 + 1.001)))))"
    "band b4 ''pre_nbr3'' = Some (Val (pre_nbr3_of 0.6))"
    "band b4 ''rdnbr''
       = Some (Val (of_int (toInt (of_int (toInt ((0.6 - (- 0.1)) * 1000)) / pre_nbr3_of 0.6))))"
    by blast
  have "band b4 ''dnbr'' = Some (Val 700)" "band b4 ''rbr'' = Some (Val 437)"
    "band b4 ''rdnbr'' = Some (Val 903)"
    using b by (simp_all only: t(1-3) of_int_numeral)
  moreover have "band b4 ''pre_nbr3'' = Some (Val (sqrt 0.6))"
    using b(3) by (simp only: t(4))
  ultimately show ?thesis using c by blast
qed

text \<open>
  C6. Whatever the pre-fire NBR \<open>p\<close>, \<open>pre_nbr3\<close> has a value that is at least
  \<open>sqrt 0.001\<close> (between 0.0316 and 0.0317), so \<open>rdnbr\<close> has a value too; and for
  \<open>\<bar>p\<bar> < 0.001\<close>, \<open>pre_nbr3\<close> is exactly \<open>sqrt 0.001\<close>.
\<close>

theorem rdnbr_denominator_clamped:
  assumes "band fi ''pre_nbr'' = Some (Val p)" and "band fi ''post_nbr'' = Some (Val q)"
  shows "\<exists>b1 b2 b3 b4 v d.
       burnIndices fi = Some b1 \<and> burnIndices2 b1 = Some b2
       \<and> burnIndices3 b2 = Some b3 \<and> burnIndices4 b3 = Some b4
       \<and> band b4 ''pre_nbr3'' = Some (Val v) \<and> sqrt 0.001 \<le> v \<and> 0.0316 < v
       \<and> (\<bar>p\<bar> < 0.001 \<longrightarrow> v = sqrt 0.001 \<and> v < 0.0317)
       \<and> band b4 ''rdnbr'' = Some (Val d)
       \<and> d = of_int (toInt (of_int (toInt ((p - q) * 1000)) / v))"
proof -
  have "\<bar>p\<bar> < 0.001 \<longrightarrow> pre_nbr3_of p = sqrt 0.001"
    by (simp add: pre_nbr3_of_def)
  moreover have "0.0316 < pre_nbr3_of p"
    using pre_nbr3_of_ge [of p] sqrt_0001(1) by linarith
  ultimately show ?thesis
    using burn_chain_nbr [OF assms] pre_nbr3_of_ge [of p] sqrt_0001 by force
qed

theorem rdnbr_denominator_clamped_witness:
  "(\<exists>b1 b2 b3 b4 d.
       burnIndices (composite0 0.0005 (- 0.1)) = Some b1 \<and> burnIndices2 b1 = Some b2
       \<and> burnIndices3 b2 = Some b3 \<and> burnIndices4 b3 = Some b4
       \<and> band b4 ''pre_nbr3'' = Some (Val (sqrt 0.001))
       \<and> band b4 ''rdnbr'' = Some (Val d))
   \<and> (\<exists>b1 b2 b3 b4 d.
       burnIndices (composite0 0 (- 0.1)) = Some b1 \<and> burnIndices2 b1 = Some b2
       \<and> burnIndices3 b2 = Some b3 \<and> burnIndices4 b3 = Some b4
       \<and> band b4 ''pre_nbr3'' = Some (Val (sqrt 0.001))
       \<and> band b4 ''rdnbr'' = Some (Val d))"
proof -
  have a: "\<bar>0.0005 :: real\<bar> < 0.001" "\<bar>0 :: real\<bar> < 0.001" by simp_all
  show ?thesis
    using rdnbr_denominator_clamped [OF band_composite0, of "0.0005" "- 0.1"]
      rdnbr_denominator_clamped [OF band_composite0, of 0 "- 0.1"] a
    by blast
qed

subsection \<open>The candidate fire mask\<close>

lemma keeps_masks: "keeps (dryLand st) \<and> keeps (land st) \<longleftrightarrow> onLand st"
  by (cases "max_extent st")
     (auto simp: onLand_def dryLand_def land_def px_clip_def of_bool_real_def)

lemma bands_landMasked:
  "bands (landMasked st img) = map (\<lambda>(n, v). (n, if onLand st then v else Masked)) (bands img)"
  using keeps_masks [of st]
  by (auto simp: landMasked_def updateMask_def mapBands_def)

lemma band_landMasked:
  "band (landMasked st img) n = map_option (\<lambda>v. if onLand st then v else Masked) (band img n)"
  unfolding band_def bands_landMasked
  by (induction "bands img" arbitrary: img) (auto simp: map_of_map split: prod.splits)

lemma candidate_single:
  assumes "bands (hiRF rs) = [(n1, a)]" "bands (hiDEV rs) = [(n2, b)]"
    "bands (hiSUB rs) = [(n3, c)]" "bands (hiMN rs) = [(n4, e)]"
  shows "\<exists>r. candidate rs reg = Some r \<and>
     bands r = [(n1, px_selfMask (lift1 (\<lambda>x. of_bool_real (x = 4))
        (lift2 (+) (lift2 (+) (lift2 (+) (px_clip reg a) (px_clip reg b)) (px_clip reg c))
           (px_clip reg e))))]"
  using assms
  by (simp add: candidate_def clip_def mapBands_def img_add_def binop_def sndBand_def
      selfMask_def img_eq_def)

lemma fuse_pixels:
  "px_selfMask (lift1 (\<lambda>x. of_bool_real (x = 4))
        (lift2 (+) (lift2 (+) (lift2 (+)
           (px_clip reg (lift1 (\<lambda>x. of_bool_real (P1 x)) a))
           (px_clip reg (lift1 (\<lambda>x. of_bool_real (P2 x)) b)))
           (px_clip reg (lift1 (\<lambda>x. of_bool_real (P3 x)) c)))
           (px_clip reg (lift1 (\<lambda>x. of_bool_real (P4 x)) e))))
   = (if reg \<and> holds P1 a \<and> holds P2 b \<and> holds P3 c \<and> holds P4 e then Val 1 else Masked)"
  by (cases a; cases b; cases c; cases e) (auto simp: px_clip_def of_bool_real_def)

lemma thresholds_eq:
  assumes "band divC ''nbr2'' = Some d" "band subC ''nbr2'' = Some s" "band meanC ''nbr'' = Some m"
  shows "\<exists>rs. thresholds st predicted divC subC meanC = Some rs
     \<and> hiRF rs = gt predicted 0.9
     \<and> bands (hiDEV rs) = [(''nbr2'', lift1 (\<lambda>x. of_bool_real (x < 0.5)) (if onLand st then d else Masked))]
     \<and> bands (hiSUB rs) = [(''nbr2'', lift1 (\<lambda>x. of_bool_real (x < - 0.1)) (if onLand st then s else Masked))]
     \<and> bands (hiMN rs) = [(''nbr'', lift1 (\<lambda>x. of_bool_real (x < 0)) (if onLand st then m else Masked))]"
  using assms
  by (simp add: thresholds_def hiDEVthresh_def hiSUBthresh_def hiMNthresh_def hiRFthresh_def
      select1 band_landMasked lt_def mapBands_def)

lemma bands_predictedImage:
  "bands (predictedImage clf st b19) =
     [(''classification'', if onLand st then (case known (bands b19) of None \<Rightarrow> Masked | Some xs \<Rightarrow> Val (clf xs)) else Masked)]"
  using keeps_masks [of st]
  by (auto simp: predictedImage_def classify_def updateMask_def mapBands_def)

lemma holds_if: "holds P (if c then v else Masked) \<longleftrightarrow> c \<and> holds P v"
  by simp

lemma conj_onLand:
  "(reg \<and> (l \<and> r1) \<and> (l \<and> r2) \<and> (l \<and> r3) \<and> (l \<and> r4)) = (reg \<and> l \<and> r1 \<and> r2 \<and> r3 \<and> r4)"
  by blast

text \<open>
  C1. With the classifier's probability \<open>p\<close> and the values \<open>d\<close>, \<open>s\<close>, \<open>m\<close> of
  \<^verbatim>\<open>divCol\<close> band \<open>nbr2\<close>, \<^verbatim>\<open>subCol\<close> band \<open>nbr2\<close> and \<^verbatim>\<open>meanCol\<close> band \<open>nbr\<close> at the pixel,
  the vectorised mask is 1 exactly when the pixel lies in the region, is on land and
  outside the permanent water, and all four rules hold (\<open>p > 0.9\<close>, \<open>d < 0.5\<close>,
  \<open>s < -0.1\<close>, \<open>m < 0\<close>); otherwise it is masked. The mask is computed as "the sum of
  the four rule rasters equals 4".
\<close>

theorem candidate_iff:
  assumes "band divC ''nbr2'' = Some d" "band subC ''nbr2'' = Some s" "band meanC ''nbr'' = Some m"
    and "p = (case known (bands b19) of None \<Rightarrow> Masked | Some xs \<Rightarrow> Val (clf xs))"
  shows "\<exists>rs r. thresholds st (predictedImage clf st b19) divC subC meanC = Some rs
     \<and> candidate rs reg = Some r
     \<and> bands r = [(''classification'',
          if reg \<and> onLand st \<and> holds (\<lambda>x. 0.9 < x) p \<and> holds (\<lambda>x. x < 0.5) d
             \<and> holds (\<lambda>x. x < - 0.1) s \<and> holds (\<lambda>x. x < 0) m
          then Val 1 else Masked)]"
proof -
  from thresholds_eq [OF assms(1-3), of st "predictedImage clf st b19"] obtain rs where rs:
    "thresholds st (predictedImage clf st b19) divC subC meanC = Some rs"
    "hiRF rs = gt (predictedImage clf st b19) 0.9"
    "bands (hiDEV rs) = [(''nbr2'', lift1 (\<lambda>x. of_bool_real (x < 0.5)) (if onLand st then d else Masked))]"
    "bands (hiSUB rs) = [(''nbr2'', lift1 (\<lambda>x. of_bool_real (x < - 0.1)) (if onLand st then s else Masked))]"
    "bands (hiMN rs) = [(''nbr'', lift1 (\<lambda>x. of_bool_real (x < 0)) (if onLand st then m else Masked))]"
    by blast
  have rf: "bands (hiRF rs) = [(''classification'', lift1 (\<lambda>x. of_bool_real (0.9 < x)) (if onLand st then p else Masked))]"
    by (simp add: rs(2) gt_def mapBands_def bands_predictedImage assms(4))
  from candidate_single [OF rf rs(3) rs(4) rs(5), of reg] obtain r where r:
    "candidate rs reg = Some r"
    "bands r = [(''classification'', px_selfMask (lift1 (\<lambda>x. of_bool_real (x = 4))
        (lift2 (+) (lift2 (+) (lift2 (+)
           (px_clip reg (lift1 (\<lambda>x. of_bool_real (0.9 < x)) (if onLand st then p else Masked)))
           (px_clip reg (lift1 (\<lambda>x. of_bool_real (x < 0.5)) (if onLand st then d else Masked))))
           (px_clip reg (lift1 (\<lambda>x. of_bool_real (x < - 0.1)) (if onLand st then s else Masked))))
           (px_clip reg (lift1 (\<lambda>x. of_bool_real (x < 0)) (if onLand st then m else Masked))))))]"
    by blast
  have "bands r = [(''classification'',
          if reg \<and> onLand st \<and> holds (\<lambda>x. 0.9 < x) p \<and> holds (\<lambda>x. x < 0.5) d
             \<and> holds (\<lambda>x. x < - 0.1) s \<and> holds (\<lambda>x. x < 0) m
          then Val 1 else Masked)]"
    unfolding r(2) fuse_pixels holds_if conj_onLand ..
  with rs(1) r(1) show ?thesis by blast
qed

lemma known_predictors0: "known (bands predictors0) = Some [120, 3, 5]"
  by (simp add: predictors0_def)

theorem candidate_iff_witness:
  "(\<exists>rs r. thresholds site0 (predictedImage (\<lambda>xs. 0.95) site0 predictors0)
        (single ''nbr2'' 0.3) (single ''nbr2'' (- 0.2)) (single ''nbr'' (- 0.05)) = Some rs
      \<and> candidate rs True = Some r \<and> bands r = [(''classification'', Val 1)])
   \<and> (\<exists>rs r. thresholds site0 (predictedImage (\<lambda>xs. 0.95) site0 predictors0)
        (single ''nbr2'' 0.6) (single ''nbr2'' (- 0.2)) (single ''nbr'' (- 0.05)) = Some rs
      \<and> candidate rs True = Some r \<and> bands r = [(''classification'', Masked)])"
proof -
  have d1: "band (single ''nbr2'' 0.3) ''nbr2'' = Some (Val 0.3)"
    and d2: "band (single ''nbr2'' 0.6) ''nbr2'' = Some (Val 0.6)"
    and s1: "band (single ''nbr2'' (- 0.2)) ''nbr2'' = Some (Val (- 0.2))"
    and m1: "band (single ''nbr'' (- 0.05)) ''nbr'' = Some (Val (- 0.05))"
    by (simp_all add: single_def band_def)
  have p: "Val 0.95 = (case known (bands predictors0) of None \<Rightarrow> Masked
                       | Some xs \<Rightarrow> Val ((\<lambda>xs. 0.95) xs))"
    by (simp add: known_predictors0)
  have l: "onLand site0" by (simp add: onLand_def site0_def)
  show ?thesis
    using candidate_iff [OF d1 s1 m1 p, of site0 True]
      candidate_iff [OF d2 s1 m1 p, of site0 True] l
    by simp
qed

subsection \<open>The export loop\<close>

lemma tileLoop_eq:
  "i \<le> 24 \<Longrightarrow> tileLoop y rs grid i tasks = tasks @ map (tileTask y rs grid) [i..<24]"
proof (induction y rs grid i tasks rule: tileLoop.induct)
  case (1 y rs grid i tasks)
  show ?case
  proof (cases "i < 24")
    case True
    then have "tileLoop y rs grid i tasks = tileLoop y rs grid (i + 1) (tasks @ [tileTask y rs grid i])"
      by (subst tileLoop.simps) simp
    also have "\<dots> = (tasks @ [tileTask y rs grid i]) @ map (tileTask y rs grid) [i + 1..<24]"
      using True by (intro "1.IH") simp_all
    also have "\<dots> = tasks @ map (tileTask y rs grid) [i..<24]"
      using True by (simp add: upt_conv_Cons)
    finally show ?thesis .
  next
    case False
    with "1.prems" have "i = 24" by simp
    then show ?thesis by (subst tileLoop.simps) simp
  qed
qed

lemma digit_zero: "d < 10 \<Longrightarrow> digit d = CHR ''0'' \<longleftrightarrow> d = 0"
proof -
  assume "d < 10"
  then have "d \<in> {0, 1, 2, 3, 4, 5, 6, 7, 8, 9}" by auto
  then show ?thesis by (auto simp: digit_def)
qed

lemma format02_zero: "format02 0 = ''00''"
  by (simp add: format02_def digit_def)

lemma format02_nonzero:
  assumes "0 < i" "i < 100"
  shows "format02 i \<noteq> ''00''"
proof (cases "i < 10")
  case True
  then show ?thesis using assms digit_zero [of i] by (simp add: format02_def)
next
  case False
  then have d: "0 < i div 10" "i div 10 < 10" using assms by auto
  have "dec i = [digit (i div 10), digit (i mod 10)]"
    using False d by (subst dec.simps) simp
  then show ?thesis using False d digit_zero [of "i div 10"] by (simp add: format02_def)
qed

lemma description_tile0:
  assumes "0 < i" "i < 100"
  shows "description (tileTask y rs grid i) \<noteq> description (tileTask y rs grid 0)"
  using format02_nonzero [OF assms] by (simp add: tileTask_def format02_zero)

lemma collection_tile:
  "i < 24 \<Longrightarrow> i < length grid \<Longrightarrow>
     collection (tileTask y rs grid i) = vectors rs (covers (grid ! i))"
  by (simp add: tileTask_def get_def toList_def)

text \<open>
  C9. With export on and the drawn polygon off, and a covering grid of 24 cells, the loop
  hands over the tasks of the tiles 1 to 23 in this order and no other: 23 tasks, each
  vectorising the mask inside its own cell, none carrying the description of tile 0.
\<close>

theorem tile_exports:
  assumes "length grid = 24"
  shows "exports True False y rs grid roi = map (tileTask y rs grid) [1..<24]
     \<and> length (exports True False y rs grid roi) = 23
     \<and> map collection (exports True False y rs grid roi)
         = map (\<lambda>i. vectors rs (covers (grid ! i))) [1..<24]
     \<and> (\<forall>t\<in>set (exports True False y rs grid roi).
           description t \<noteq> description (tileTask y rs grid 0))"
proof -
  have e: "exports True False y rs grid roi = map (tileTask y rs grid) [1..<24]"
    by (simp add: exports_def tileLoop_eq del: upt_rec_numeral tileLoop.simps)
  have c: "map collection (map (tileTask y rs grid) [1..<24])
           = map (\<lambda>i. vectors rs (covers (grid ! i))) [1..<24]"
    using assms by (simp add: collection_tile del: upt_rec_numeral)
  have d: "\<forall>t\<in>set (map (tileTask y rs grid) [1..<24]).
           description t \<noteq> description (tileTask y rs grid 0)"
    using description_tile0 by (auto simp del: upt_rec_numeral)
  show ?thesis unfolding e using c d by (simp del: upt_rec_numeral)
qed


lemma vectors_rules0: "vectors rules0 False = Some Masked"
  by (simp add: vectors_def candidate_def rules0_def single_def clip_def mapBands_def
      img_add_def binop_def sndBand_def selfMask_def img_eq_def px_clip_def firstBand_def)

theorem tile_exports_witness:
  "length grid0 = 24 \<and> covers (grid0 ! 0)
   \<and> length (exports True False 2020 rules0 grid0 True) = 23
   \<and> list_all (\<lambda>t. collection t = Some Masked) (exports True False 2020 rules0 grid0 True)
   \<and> list_all (\<lambda>t. description t \<noteq> ''candidateFires__2020__ROIsub_00_0px60m'')
        (exports True False 2020 rules0 grid0 True)"
proof -
  have g: "length grid0 = 24" "covers (grid0 ! 0)"
    by (simp_all add: grid0_def)
  have n: "\<not> covers (grid0 ! i)" if "1 \<le> i" "i < 24" for i
    using that by (cases i) (simp_all add: grid0_def)
  have d: "description (tileTask 2020 rules0 grid0 0) = ''candidateFires__2020__ROIsub_00_0px60m''"
    by (simp add: tileTask_def show_int_def format02_def Res_def pxFilter_def digit_def)
  have c: "map (\<lambda>i. vectors rules0 (covers (grid0 ! i))) [1..<24] = map (\<lambda>i. Some Masked) [1..<24]"
    by (rule map_cong [OF refl]) (simp add: n vectors_rules0 del: upt_rec_numeral)
  from tile_exports [OF g(1), of 2020 rules0 True]
  have e: "length (exports True False 2020 rules0 grid0 True) = 23"
    "map collection (exports True False 2020 rules0 grid0 True) = map (\<lambda>i. Some Masked) [1..<24]"
    "\<forall>t\<in>set (exports True False 2020 rules0 grid0 True).
        description t \<noteq> ''candidateFires__2020__ROIsub_00_0px60m''"
    unfolding d c by blast+
  have "list_all (\<lambda>t. collection t = Some Masked) (exports True False 2020 rules0 grid0 True)"
    unfolding list_all_iff
  proof
    fix t assume "t \<in> set (exports True False 2020 rules0 grid0 True)"
    then have "collection t \<in> set (map collection (exports True False 2020 rules0 grid0 True))"
      by simp
    then show "collection t = Some Masked" unfolding e(2) by auto
  qed
  with g e(1) e(3) show ?thesis by (simp add: list_all_iff)
qed

subsection \<open>Composites and the sentinel image\<close>

lemma transparentImage_eq:
  "transparentImage = Some \<lparr>bands = map (\<lambda>n. (n, Masked)) allVariables, time_start = None, inBounds = True\<rparr>"
  by (simp add: transparentImage_def rename_def cat_def toFloat_def ee_Image_def allVariables_def)

lemma unmasked_append: "unmasked b (xs @ ys) = unmasked b xs @ unmasked b ys"
  by (simp add: unmasked_def)

lemma unmasked_Nil: "unmasked b [] = []"
  by (simp add: unmasked_def)

lemma map_of_const: "map_of (map (\<lambda>n. (n, g n)) ns) n = (if n \<in> set ns then Some (g n) else None)"
  by (induction ns) auto

lemma unmasked_sentinel:
  "unmasked b [\<lparr>bands = map (\<lambda>n. (n, Masked)) ns, time_start = t, inBounds = ib\<rparr>] = []"
  by (simp add: unmasked_def band_def map_of_const)

lemma reduceCol_homog:
  assumes "col \<noteq> []" and "\<forall>i\<in>set col. bandNames i = ns"
  shows "reduceCol f col = Some \<lparr>bands = map (\<lambda>b. (b, f (unmasked b col))) ns,
     time_start = None, inBounds = True\<rparr>"
  using assms by (cases col) (auto simp: reduceCol_def list_all_iff)

lemma pick_map:
  "set ms \<subseteq> set ns \<Longrightarrow> pick (map (\<lambda>n. (n, g n)) ns) ms = Some (map (\<lambda>n. (n, g n)) ms)"
  by (induction ms) (auto simp: map_of_const)

lemma select2_map:
  assumes "length new = length ns"
  shows "select2 ns new \<lparr>bands = map (\<lambda>n. (n, g n)) ns, time_start = t, inBounds = ib\<rparr>
     = Some \<lparr>bands = zip new (map g ns), time_start = t, inBounds = ib\<rparr>"
  using assms by (simp add: select2_def select_def pick_map rename_def comp_def)

lemma band_map: "band \<lparr>bands = map (\<lambda>n. (n, g n)) ns, time_start = t, inBounds = ib\<rparr> n
   = (if n \<in> set ns then Some (g n) else None)"
  by (simp add: band_def map_of_const)

lemma length_pre: "length preVariables = length allVariables" "length postVariables = length allVariables"
  by (simp_all add: preVariables_def postVariables_def)

lemma composite_with_sentinel:
  assumes "\<forall>i\<in>set W. bandNames i = allVariables" and "transparentImage = Some t"
  shows "reduceCol f (merge W [t]) = Some \<lparr>bands = map (\<lambda>b. (b, f (unmasked b W))) allVariables,
     time_start = None, inBounds = True\<rparr>"
proof -
  have t: "t = \<lparr>bands = map (\<lambda>n. (n, Masked)) allVariables, time_start = None, inBounds = True\<rparr>"
    using assms(2) by (simp add: transparentImage_eq)
  have "bandNames t = allVariables"
    by (simp add: t bandNames_def comp_def)
  then have "\<forall>i\<in>set (merge W [t]). bandNames i = allVariables"
    using assms(1) by (auto simp: merge_def)
  moreover have "merge W [t] \<noteq> []" by (simp add: merge_def)
  ultimately have "reduceCol f (merge W [t]) = Some \<lparr>bands = map (\<lambda>b. (b, f (unmasked b (merge W [t])))) allVariables,
     time_start = None, inBounds = True\<rparr>"
    by (rule reduceCol_homog [rotated])
  moreover have "unmasked b (merge W [t]) = unmasked b W" for b
    by (simp add: merge_def unmasked_append t unmasked_sentinel)
  ultimately show ?thesis by simp
qed

lemma pre_filled_eq:
  assumes "\<forall>i\<in>set imgCol. bandNames i = allVariables"
  shows "pre_filled imgCol y = Some \<lparr>bands = zip preVariables
       (map (\<lambda>b. median (unmasked b (window y (- 1) (filterBounds imgCol)))) allVariables),
     time_start = None, inBounds = True\<rparr>"
proof -
  have "\<forall>i\<in>set (window y (- 1) (filterBounds imgCol)). bandNames i = allVariables"
    using assms by (auto simp: window_def filterDate_def filterBounds_def)
  from composite_with_sentinel [OF this transparentImage_eq, of median] show ?thesis
    by (simp add: pre_filled_def preFilteredCol_def transparentImage_eq window_def select2_map length_pre)
qed

lemma post_filled_eq:
  assumes "\<forall>i\<in>set imgCol. bandNames i = allVariables"
  shows "post_filled imgCol y = Some \<lparr>bands = zip postVariables
       (map (\<lambda>b. median (unmasked b (window y 1 (filterBounds imgCol)))) allVariables),
     time_start = None, inBounds = True\<rparr>"
proof -
  have "\<forall>i\<in>set (window y 1 (filterBounds imgCol)). bandNames i = allVariables"
    using assms by (auto simp: window_def filterDate_def filterBounds_def)
  from composite_with_sentinel [OF this transparentImage_eq, of median] show ?thesis
    by (simp add: post_filled_def postFilteredCol_def transparentImage_eq window_def select2_map length_pre)
qed

lemma fireIndices_bandNames:
  assumes "\<forall>i\<in>set imgCol. bandNames i = allVariables"
  shows "\<exists>fi. fireIndices imgCol y = Some fi \<and> bandNames fi = preVariables @ postVariables"
  by (simp add: fireIndices_def pre_filled_eq [OF assms] post_filled_eq [OF assms]
      addBands_def bandNames_def length_pre)

lemma lowerCaseVariables_eq: "lowerCaseVariables = [''dnbr2'', ''dtcg'', ''dtcb'']"
  by (simp add: lowerCaseVariables_def predictorVariables_def toLowerCase_def lower_char_def)

lemma eval_succeeds:
  "novars e \<Longrightarrow> set (bvars e) \<subseteq> set (bandNames img) \<Longrightarrow> \<exists>v. eval img [] e = Some v"
proof (induction e)
  case (B n)
  then show ?case using band_None_iff [of img n] by auto
qed auto

lemma burnStep_succeeds:
  assumes "novars e" and "set (bvars e) \<subseteq> set (bandNames prev)"
  shows "\<exists>r. burnStep e name prev = Some r \<and> bandNames r = name # bandNames prev"
proof -
  from eval_succeeds [OF assms] obtain v where "eval prev [] e = Some v" ..
  from burnStep_eval [OF this, of name] show ?thesis by blast
qed

lemma pre_post_mem:
  "ix \<in> set allVariables \<Longrightarrow> ''pre_'' @ ix \<in> set preVariables"
  "ix \<in> set allVariables \<Longrightarrow> ''post_'' @ ix \<in> set postVariables"
  by (auto simp: preVariables_def postVariables_def)

lemma burnStep_diff:
  assumes "ix \<in> set allVariables" and "set (preVariables @ postVariables) \<subseteq> set (bandNames prev)"
  shows "\<exists>r. burnStep (Mul (diffExpr ix) (N c)) name prev = Some r \<and> bandNames r = name # bandNames prev"
    and "\<exists>r. burnStep (diffExpr ix) name prev = Some r \<and> bandNames r = name # bandNames prev"
  using assms pre_post_mem [OF assms(1)]
  by (auto intro!: burnStep_succeeds simp: diffExpr_def)

lemma burnIndices3_succeeds:
  assumes "''pre_nbr'' \<in> set (bandNames prev)"
  shows "\<exists>r. burnIndices3 prev = Some r \<and> bandNames r = ''pre_nbr3'' # bandNames prev"
proof -
  from assms obtain v where "band prev ''pre_nbr'' = Some v"
    using band_None_iff [of prev "''pre_nbr''"] by auto
  from burnIndices3_eval [OF this] show ?thesis by blast
qed

lemma allVariables_mem:
  "''nbr'' \<in> set allVariables" "''nbr2'' \<in> set allVariables" "''ndvi'' \<in> set allVariables"
  "''ndmi'' \<in> set allVariables" "''ndwi'' \<in> set allVariables" "''evi'' \<in> set allVariables"
  "''mirbi'' \<in> set allVariables" "''bai'' \<in> set allVariables" "''baims'' \<in> set allVariables"
  "''csi'' \<in> set allVariables" "''bsi'' \<in> set allVariables" "''msavi'' \<in> set allVariables"
  "''tcb'' \<in> set allVariables" "''tcg'' \<in> set allVariables" "''tcw'' \<in> set allVariables"
  by (simp_all add: allVariables_def)

lemma burnMetrics_succeeds:
  assumes fi: "bandNames fi = preVariables @ postVariables"
  shows "\<exists>b. burnMetrics st fi = Some b \<and> bandNames b = predictorVariables"
proof -
  let ?P = "set (preVariables @ postVariables)"
  have pn: "''pre_nbr'' \<in> ?P"
    using pre_post_mem(1) [OF allVariables_mem(1)] by simp
  have s0: "?P \<subseteq> set (bandNames fi)" by (simp add: fi)
  from burnStep_diff(1) [OF allVariables_mem(1) s0, of 1000 "''dnbr''"] obtain b1 where b1:
    "burnIndices fi = Some b1" "bandNames b1 = ''dnbr'' # bandNames fi"
    by (auto simp: burnIndices_def)
  have s1: "?P \<subseteq> set (bandNames b1)" using s0 b1(2) by auto
  have "\<exists>r. burnStep (Div (B ''dnbr'') (Add (B ''pre_nbr'') (N 1.001))) ''rbr'' b1 = Some r
          \<and> bandNames r = ''rbr'' # bandNames b1"
    using s1 pn b1(2) by (intro burnStep_succeeds) auto
  then obtain b2 where b2: "burnIndices2 b1 = Some b2" "bandNames b2 = ''rbr'' # bandNames b1"
    by (auto simp: burnIndices2_def)
  have s2: "?P \<subseteq> set (bandNames b2)" using s1 b2(2) by auto
  from burnIndices3_succeeds [of b2] obtain b3 where b3:
    "burnIndices3 b2 = Some b3" "bandNames b3 = ''pre_nbr3'' # bandNames b2"
    using s2 pn by auto
  have s3: "?P \<subseteq> set (bandNames b3)" using s2 b3(2) by auto
  have "\<exists>r. burnStep (Div (B ''dnbr'') (B ''pre_nbr3'')) ''rdnbr'' b3 = Some r
          \<and> bandNames r = ''rdnbr'' # bandNames b3"
    using b3(2) b2(2) b1(2) by (intro burnStep_succeeds) auto
  then obtain b4 where b4: "burnIndices4 b3 = Some b4" "bandNames b4 = ''rdnbr'' # bandNames b3"
    by (auto simp: burnIndices4_def)
  have s4: "?P \<subseteq> set (bandNames b4)" using s3 b4(2) by auto
  from burnStep_diff(1) [OF allVariables_mem(3) s4, of 1000 "''dndvi''"] obtain b5 where b5:
    "burnIndices5 b4 = Some b5" "bandNames b5 = ''dndvi'' # bandNames b4"
    by (auto simp: burnIndices5_def)
  have s5: "?P \<subseteq> set (bandNames b5)" using s4 b5(2) by auto
  from burnStep_diff(1) [OF allVariables_mem(6) s5, of 1000 "''devi''"] obtain b6 where b6:
    "burnIndices6 b5 = Some b6" "bandNames b6 = ''devi'' # bandNames b5"
    by (auto simp: burnIndices6_def)
  have s6: "?P \<subseteq> set (bandNames b6)" using s5 b6(2) by auto
  from burnStep_diff(1) [OF allVariables_mem(4) s6, of 1000 "''dndmi''"] obtain b7 where b7:
    "burnIndices7 b6 = Some b7" "bandNames b7 = ''dndmi'' # bandNames b6"
    by (auto simp: burnIndices7_def)
  have s7: "?P \<subseteq> set (bandNames b7)" using s6 b7(2) by auto
  from burnStep_diff(1) [OF allVariables_mem(7) s7, of 1000 "''dmirbi''"] obtain b8 where b8:
    "burnIndices8 b7 = Some b8" "bandNames b8 = ''dmirbi'' # bandNames b7"
    by (auto simp: burnIndices8_def)
  have s8: "?P \<subseteq> set (bandNames b8)" using s7 b8(2) by auto
  from burnStep_diff(1) [OF allVariables_mem(2) s8, of 1000 "''dnbr2''"] obtain b9 where b9:
    "burnIndices9 b8 = Some b9" "bandNames b9 = ''dnbr2'' # bandNames b8"
    by (auto simp: burnIndices9_def)
  have s9: "?P \<subseteq> set (bandNames b9)" using s8 b9(2) by auto
  from burnStep_diff(1) [OF allVariables_mem(5) s9, of 1000 "''dndwi''"] obtain b10 where b10:
    "burnIndices10 b9 = Some b10" "bandNames b10 = ''dndwi'' # bandNames b9"
    by (auto simp: burnIndices10_def)
  have s10: "?P \<subseteq> set (bandNames b10)" using s9 b10(2) by auto
  from burnStep_diff(2) [OF allVariables_mem(8) s10, of "''dbai''"] obtain b11 where b11:
    "burnIndices11 b10 = Some b11" "bandNames b11 = ''dbai'' # bandNames b10"
    by (auto simp: burnIndices11_def)
  have s11: "?P \<subseteq> set (bandNames b11)" using s10 b11(2) by auto
  from burnStep_diff(1) [OF allVariables_mem(9) s11, of 10 "''dbaims''"] obtain b12 where b12:
    "burnIndices12 b11 = Some b12" "bandNames b12 = ''dbaims'' # bandNames b11"
    by (auto simp: burnIndices12_def)
  have s12: "?P \<subseteq> set (bandNames b12)" using s11 b12(2) by auto
  from burnStep_diff(1) [OF allVariables_mem(10) s12, of 1000 "''dcsi''"] obtain b13 where b13:
    "burnIndices13 b12 = Some b13" "bandNames b13 = ''dcsi'' # bandNames b12"
    by (auto simp: burnIndices13_def)
  have s13: "?P \<subseteq> set (bandNames b13)" using s12 b13(2) by auto
  from burnStep_diff(1) [OF allVariables_mem(11) s13, of 1000 "''dbsi''"] obtain b14 where b14:
    "burnIndices14 b13 = Some b14" "bandNames b14 = ''dbsi'' # bandNames b13"
    by (auto simp: burnIndices14_def)
  have s14: "?P \<subseteq> set (bandNames b14)" using s13 b14(2) by auto
  from burnStep_diff(1) [OF allVariables_mem(13) s14, of 100 "''dtcb''"] obtain b15 where b15:
    "burnIndices15 b14 = Some b15" "bandNames b15 = ''dtcb'' # bandNames b14"
    by (auto simp: burnIndices15_def)
  have s15: "?P \<subseteq> set (bandNames b15)" using s14 b15(2) by auto
  from burnStep_diff(1) [OF allVariables_mem(14) s15, of 100 "''dtcg''"] obtain b16 where b16:
    "burnIndices16 b15 = Some b16" "bandNames b16 = ''dtcg'' # bandNames b15"
    by (auto simp: burnIndices16_def)
  have s16: "?P \<subseteq> set (bandNames b16)" using s15 b16(2) by auto
  from burnStep_diff(1) [OF allVariables_mem(15) s16, of 100 "''dtcw''"] obtain b17 where b17:
    "burnIndices17 b16 = Some b17" "bandNames b17 = ''dtcw'' # bandNames b16"
    by (auto simp: burnIndices17_def)
  have s17: "?P \<subseteq> set (bandNames b17)" using s16 b17(2) by auto
  from burnStep_diff(1) [OF allVariables_mem(12) s17, of 1000 "''dmsavi''"] obtain b18 where b18:
    "burnIndices18 b17 = Some b18" "bandNames b18 = ''dmsavi'' # bandNames b17"
    by (auto simp: burnIndices18_def)
  have "hasBands lowerCaseVariables (updateMask b18 (dryLand st))"
    unfolding hasBands_iff bandNames_updateMask lowerCaseVariables_eq
    by (simp add: b18(2) b17(2) b16(2) b15(2) b14(2) b13(2) b12(2) b11(2) b10(2) b9(2))
  from select2_succeeds [OF this, of predictorVariables] obtain b19 where b19:
    "burnIndices19 st b18 = Some b19"
    by (auto simp: burnIndices19_def lowerCaseVariables_eq predictorVariables_def)
  then have "bandNames b19 = predictorVariables"
    by (simp add: burnIndices19_def select2_bandNames)
  with b19 show ?thesis
    by (simp add: burnMetrics_def b1 b2 b3 b4 b5 b6 b7 b8 b9 b10 b11 b12 b13 b14 b15 b16 b17 b18)
qed

lemma bandNames_observation: "bandNames (observation v t) = allVariables"
  by (simp add: observation_def bandNames_def comp_def)

lemma band_observation: "n \<in> set allVariables \<Longrightarrow> band (observation v t) n = Some (Val v)"
  by (simp add: observation_def band_map)

lemma unmasked_Cons_observation:
  "n \<in> set allVariables \<Longrightarrow> unmasked n (observation v t # col) = v # unmasked n col"
  by (simp add: unmasked_def band_observation)

lemma median_Nil: "median [] = Masked"
  by (simp add: median_def)

lemma median_not_Masked: "vs \<noteq> [] \<Longrightarrow> median vs \<noteq> Masked"
  by (simp add: median_def Let_def)

lemma median_Val: "vs \<noteq> [] \<Longrightarrow> \<exists>v. median vs = Val v"
  using median_not_Masked [of vs] by (cases "median vs") auto

lemma zip_masked:
  "length ns = length ms \<Longrightarrow> zip ns (map (\<lambda>b. Masked) ms) = map (\<lambda>n. (n, Masked)) ns"
  by (induction ns ms rule: list_induct2) auto

text \<open>
  C5. Let every observation of the collection carry the 15 index bands (as
  \<open>lsCol_bandNames\<close> shows for the script's collection). When the pre-fire window holds
  no observation, the median of the set with the sentinel still has the 15 band names, all
  masked, and \<^verbatim>\<open>pre_filled\<close> has the 15 \<open>pre_\<close> names, all masked; likewise after the
  fire. In every case the band selections and the arithmetic of the burn metrics go
  through. Without the sentinel the median of the empty set has no band, and the
  selection is rejected.
\<close>

theorem empty_window_composite:
  assumes "\<forall>img\<in>set imgCol. bandNames img = allVariables"
  shows "(window y (- 1) (filterBounds imgCol) = [] \<longrightarrow>
       (\<exists>col m pre. preFilteredCol imgCol y = Some col \<and> reduceCol median col = Some m
          \<and> bands m = map (\<lambda>n. (n, Masked)) allVariables
          \<and> pre_filled imgCol y = Some pre
          \<and> bands pre = map (\<lambda>n. (n, Masked)) preVariables))
     \<and> (window y 1 (filterBounds imgCol) = [] \<longrightarrow>
       (\<exists>col m post. postFilteredCol imgCol y = Some col \<and> reduceCol median col = Some m
          \<and> bands m = map (\<lambda>n. (n, Masked)) allVariables
          \<and> post_filled imgCol y = Some post
          \<and> bands post = map (\<lambda>n. (n, Masked)) postVariables))
     \<and> (\<exists>fi b. fireIndices imgCol y = Some fi \<and> bandNames fi = preVariables @ postVariables
          \<and> burnMetrics st fi = Some b \<and> bandNames b = predictorVariables)
     \<and> Option.bind (reduceCol median []) (select2 allVariables preVariables) = None"
proof -
  have t: "transparentImage = Some \<lparr>bands = map (\<lambda>n. (n, Masked)) allVariables,
      time_start = None, inBounds = True\<rparr>" (is "_ = Some ?t")
    by (rule transparentImage_eq)
  have e: "reduceCol median (merge [] [?t])
      = Some \<lparr>bands = map (\<lambda>b. (b, median (unmasked b []))) allVariables,
          time_start = None, inBounds = True\<rparr>"
    by (rule composite_with_sentinel [OF _ t]) simp
  have pre: "window y (- 1) (filterBounds imgCol) = [] \<longrightarrow>
       (\<exists>col m pre. preFilteredCol imgCol y = Some col \<and> reduceCol median col = Some m
          \<and> bands m = map (\<lambda>n. (n, Masked)) allVariables
          \<and> pre_filled imgCol y = Some pre
          \<and> bands pre = map (\<lambda>n. (n, Masked)) preVariables)"
  proof
    assume w: "window y (- 1) (filterBounds imgCol) = []"
    have "preFilteredCol imgCol y = Some (merge [] [?t])"
      using w by (simp add: preFilteredCol_def t window_def)
    moreover have "bands pre' = map (\<lambda>n. (n, Masked)) preVariables"
      if "pre_filled imgCol y = Some pre'" for pre'
      using that unfolding pre_filled_eq [OF assms] w
      by (auto simp: unmasked_Nil median_Nil zip_masked length_pre)
    ultimately show "\<exists>col m pre. preFilteredCol imgCol y = Some col \<and> reduceCol median col = Some m
          \<and> bands m = map (\<lambda>n. (n, Masked)) allVariables
          \<and> pre_filled imgCol y = Some pre
          \<and> bands pre = map (\<lambda>n. (n, Masked)) preVariables"
      using e pre_filled_eq [OF assms, of y] by (simp add: unmasked_Nil median_Nil)
  qed
  have post: "window y 1 (filterBounds imgCol) = [] \<longrightarrow>
       (\<exists>col m post. postFilteredCol imgCol y = Some col \<and> reduceCol median col = Some m
          \<and> bands m = map (\<lambda>n. (n, Masked)) allVariables
          \<and> post_filled imgCol y = Some post
          \<and> bands post = map (\<lambda>n. (n, Masked)) postVariables)"
  proof
    assume w: "window y 1 (filterBounds imgCol) = []"
    have "postFilteredCol imgCol y = Some (merge [] [?t])"
      using w by (simp add: postFilteredCol_def t window_def)
    moreover have "bands post' = map (\<lambda>n. (n, Masked)) postVariables"
      if "post_filled imgCol y = Some post'" for post'
      using that unfolding post_filled_eq [OF assms] w
      by (auto simp: unmasked_Nil median_Nil zip_masked length_pre)
    ultimately show "\<exists>col m post. postFilteredCol imgCol y = Some col \<and> reduceCol median col = Some m
          \<and> bands m = map (\<lambda>n. (n, Masked)) allVariables
          \<and> post_filled imgCol y = Some post
          \<and> bands post = map (\<lambda>n. (n, Masked)) postVariables"
      using e post_filled_eq [OF assms, of y] by (simp add: unmasked_Nil median_Nil)
  qed
  from fireIndices_bandNames [OF assms, of y] obtain fi where fi:
    "fireIndices imgCol y = Some fi" "bandNames fi = preVariables @ postVariables" by blast
  from burnMetrics_succeeds [OF fi(2), of st] obtain b where
    "burnMetrics st fi = Some b" "bandNames b = predictorVariables" by blast
  with fi have chain: "\<exists>fi b. fireIndices imgCol y = Some fi
      \<and> bandNames fi = preVariables @ postVariables
      \<and> burnMetrics st fi = Some b \<and> bandNames b = predictorVariables" by blast
  have none: "Option.bind (reduceCol median []) (select2 allVariables preVariables) = None"
    by (simp add: reduceCol_def select2_def select_def allVariables_def)
  from pre post chain none show ?thesis by blast
qed

lemma window_observation:
  "window 2020 (- 1) (filterBounds [observation v (2020, 7, 1)]) = []"
  "window 2020 1 (filterBounds [observation v (2020, 7, 1)]) = []"
  by (simp_all add: window_def filterDate_def filterBounds_def inDates_def observation_def
      advance_def startDate_def endDate_def date_less_def)

theorem empty_window_composite_witness:
  "(\<exists>pre. pre_filled [observation 0.4 (2020, 7, 1)] 2020 = Some pre
      \<and> bands pre = map (\<lambda>n. (n, Masked)) preVariables)
   \<and> (\<exists>post. post_filled [observation 0.4 (2020, 7, 1)] 2020 = Some post
      \<and> bands post = map (\<lambda>n. (n, Masked)) postVariables)
   \<and> (\<exists>fi b. fireIndices [observation 0.4 (2020, 7, 1)] 2020 = Some fi
      \<and> burnMetrics site0 fi = Some b \<and> bandNames b = predictorVariables)"
proof -
  have wf: "\<forall>img\<in>set [observation 0.4 (2020, 7, 1)]. bandNames img = allVariables"
    by (simp add: bandNames_observation)
  show ?thesis
    using empty_window_composite [OF wf, of 2020 site0] window_observation [of "0.4"] by blast
qed

text \<open>
  C10. Under the same condition on the collection, for each index band the median of the
  window with the sentinel is the median of the unmasked values of the window. Where the
  window has an unmasked value, that is the value of the median taken without the
  sentinel; where it has none, the result is masked. This holds before and after the
  fire.
\<close>

theorem sentinel_is_neutral:
  assumes "\<forall>img\<in>set imgCol. bandNames img = allVariables" and "b \<in> set allVariables"
  shows "(\<exists>col m. preFilteredCol imgCol y = Some col \<and> reduceCol median col = Some m
        \<and> band m b = Some (median (unmasked b (window y (- 1) (filterBounds imgCol))))
        \<and> (unmasked b (window y (- 1) (filterBounds imgCol)) \<noteq> [] \<longrightarrow>
             (\<exists>m0 v. reduceCol median (window y (- 1) (filterBounds imgCol)) = Some m0
                \<and> band m0 b = Some (Val v) \<and> band m b = Some (Val v)))
        \<and> (unmasked b (window y (- 1) (filterBounds imgCol)) = [] \<longrightarrow> band m b = Some Masked))
     \<and> (\<exists>col m. postFilteredCol imgCol y = Some col \<and> reduceCol median col = Some m
        \<and> band m b = Some (median (unmasked b (window y 1 (filterBounds imgCol))))
        \<and> (unmasked b (window y 1 (filterBounds imgCol)) \<noteq> [] \<longrightarrow>
             (\<exists>m0 v. reduceCol median (window y 1 (filterBounds imgCol)) = Some m0
                \<and> band m0 b = Some (Val v) \<and> band m b = Some (Val v)))
        \<and> (unmasked b (window y 1 (filterBounds imgCol)) = [] \<longrightarrow> band m b = Some Masked))"
proof -
  have gen: "\<exists>m. reduceCol median (merge W [t]) = Some m
        \<and> band m b = Some (median (unmasked b W))
        \<and> (unmasked b W \<noteq> [] \<longrightarrow>
             (\<exists>m0 v. reduceCol median W = Some m0
                \<and> band m0 b = Some (Val v) \<and> band m b = Some (Val v)))
        \<and> (unmasked b W = [] \<longrightarrow> band m b = Some Masked)"
    if wf: "\<forall>i\<in>set W. bandNames i = allVariables" and t: "transparentImage = Some t" for W t
  proof -
    let ?m = "\<lparr>bands = map (\<lambda>b. (b, median (unmasked b W))) allVariables,
       time_start = None, inBounds = True\<rparr>"
    have m: "reduceCol median (merge W [t]) = Some ?m"
      by (rule composite_with_sentinel [OF wf t])
    have bm: "band ?m b = Some (median (unmasked b W))"
      using assms(2) by (simp add: band_map)
    have "\<exists>m0 v. reduceCol median W = Some m0 \<and> band m0 b = Some (Val v)
        \<and> band ?m b = Some (Val v)" if ne: "unmasked b W \<noteq> []"
    proof -
      from ne have "W \<noteq> []" by (auto simp: unmasked_Nil)
      from reduceCol_homog [OF this wf, of median] have "reduceCol median W = Some ?m" .
      moreover from median_Val [OF ne] obtain v where "median (unmasked b W) = Val v" ..
      ultimately show ?thesis using bm by simp
    qed
    with m bm show ?thesis by (auto simp: median_Nil)
  qed
  have w: "\<forall>i\<in>set (window y k (filterBounds imgCol)). bandNames i = allVariables" for k
    using assms(1) by (auto simp: window_def filterDate_def filterBounds_def)
  show ?thesis
    using gen [OF w [of "- 1"] transparentImage_eq] gen [OF w [of 1] transparentImage_eq]
    by (simp add: preFilteredCol_def postFilteredCol_def transparentImage_eq window_def)
qed

lemma window_sample:
  "window 2021 (- 1) (filterBounds sample_col) = sample_col"
  "window 2021 1 (filterBounds sample_col) = []"
  by (simp_all add: sample_col_def window_def filterDate_def filterBounds_def inDates_def
      observation_def advance_def startDate_def endDate_def date_less_def)

lemma unmasked_sample: "unmasked ''nbr'' sample_col = [0.4, 0.2]"
  by (simp add: sample_col_def unmasked_Cons_observation allVariables_mem unmasked_Nil)

lemma median_sample: "median [0.4, 0.2] = Val 0.3"
  by (simp add: median_def Let_def)

theorem sentinel_is_neutral_witness:
  "(\<exists>col m m0. preFilteredCol sample_col 2021 = Some col \<and> reduceCol median col = Some m
      \<and> band m ''nbr'' = Some (Val 0.3)
      \<and> reduceCol median (window 2021 (- 1) (filterBounds sample_col)) = Some m0
      \<and> band m0 ''nbr'' = Some (Val 0.3))
   \<and> (\<exists>col m. postFilteredCol sample_col 2021 = Some col \<and> reduceCol median col = Some m
      \<and> band m ''nbr'' = Some Masked)"
proof -
  have wf: "\<forall>img\<in>set sample_col. bandNames img = allVariables"
    by (simp add: sample_col_def bandNames_observation)
  note inst = sentinel_is_neutral [OF wf allVariables_mem(1), of 2021]
  from inst obtain col m where pre:
    "preFilteredCol sample_col 2021 = Some col" "reduceCol median col = Some m"
    "band m ''nbr'' = Some (median (unmasked ''nbr'' (window 2021 (- 1) (filterBounds sample_col))))"
    "unmasked ''nbr'' (window 2021 (- 1) (filterBounds sample_col)) \<noteq> [] \<longrightarrow>
       (\<exists>m0 v. reduceCol median (window 2021 (- 1) (filterBounds sample_col)) = Some m0
          \<and> band m0 ''nbr'' = Some (Val v) \<and> band m ''nbr'' = Some (Val v))"
    by blast
  from inst obtain col' m' where post:
    "postFilteredCol sample_col 2021 = Some col'" "reduceCol median col' = Some m'"
    "unmasked ''nbr'' (window 2021 1 (filterBounds sample_col)) = [] \<longrightarrow> band m' ''nbr'' = Some Masked"
    by blast
  have v: "band m ''nbr'' = Some (Val 0.3)"
    using pre(3) by (simp only: window_sample unmasked_sample median_sample)
  have "unmasked ''nbr'' (window 2021 (- 1) (filterBounds sample_col)) \<noteq> []"
    by (simp only: window_sample unmasked_sample) simp
  with pre(4) v obtain m0 where
    "reduceCol median (window 2021 (- 1) (filterBounds sample_col)) = Some m0"
    "band m0 ''nbr'' = Some (Val 0.3)" by auto
  moreover have "band m' ''nbr'' = Some Masked"
    using post(3) by (simp add: window_sample unmasked_Nil)
  ultimately show ?thesis using pre(1,2) v post(1,2) by blast
qed

subsection \<open>Baseline and ratio deviation\<close>

lemma inWindow_eq: "inWindow y k = inDates (y + k, 6, 15) (y + k, 9, 1)"
  by (rule ext) (simp add: inWindow_def)

lemma window_filter: "window y k col = filter (inWindow y k) col"
  by (simp add: window_def filterDate_def inWindow_eq advance_def startDate_def endDate_def)

lemma inWindow_year:
  assumes "inWindow y k i"
  shows "\<exists>m d. time_start i = Some (y + k, m, d)"
proof -
  from assms obtain ty tm td where t: "time_start i = Some (ty, tm, td)"
    and a: "date_le (y + k, 6, 15) (ty, tm, td)" "date_less (ty, tm, td) (y + k, 9, 1)"
    by (cases "time_start i") (auto simp: inWindow_def inDates_def)
  from a have "ty = y + k" by (auto simp: date_less_def)
  with t show ?thesis by simp
qed

lemma inWindow_disjoint: "inWindow y k i \<Longrightarrow> inWindow y k' i \<Longrightarrow> k = k'"
  using inWindow_year [of y k i] inWindow_year [of y k' i] by auto

lemma mset_filter_disj:
  assumes "\<And>x. \<not> (P x \<and> Q x)"
  shows "mset (filter P xs @ filter Q xs) = mset (filter (\<lambda>x. P x \<or> Q x) xs)"
  using assms by (induction xs) auto

lemma mset_unmasked: "mset xs = mset ys \<Longrightarrow> mset (unmasked b xs) = mset (unmasked b ys)"
proof -
  assume a: "mset xs = mset ys"
  have "mset (unmasked b zs)
      = sum_mset (image_mset (\<lambda>i. mset (case band i b of Some (Val v) \<Rightarrow> [v] | _ \<Rightarrow> [])) (mset zs))" for zs
    by (induction zs) (simp_all add: unmasked_def)
  then show ?thesis using a by simp
qed

lemma median_mset:
  assumes "mset xs = mset ys"
  shows "median xs = median ys"
proof -
  have s: "sort xs = sort ys"
    by (rule properties_for_sort) (simp_all add: assms)
  have l: "length xs = length ys"
    using assms by (metis size_mset)
  have "xs = [] \<longleftrightarrow> ys = []"
    using l by auto
  then show ?thesis by (simp add: median_def s l)
qed

lemma baseline_mset:
  "mset (merge (window y (- 1) col) (merge (window y (- 2) col) (window y (- 3) col)))
     = mset (baselineYears col y)"
proof -
  have d12: "\<not> (inWindow y (- 2) x \<and> inWindow y (- 3) x)" for x
    using inWindow_disjoint [of y "- 2" x "- 3"] by auto
  have d1: "\<not> (inWindow y (- 1) x \<and> (inWindow y (- 2) x \<or> inWindow y (- 3) x))" for x
    using inWindow_disjoint [of y "- 1" x "- 2"] inWindow_disjoint [of y "- 1" x "- 3"] by auto
  have "mset (filter (inWindow y (- 1)) col @ (filter (inWindow y (- 2)) col @ filter (inWindow y (- 3)) col))
      = mset (filter (inWindow y (- 1)) col) + mset (filter (\<lambda>x. inWindow y (- 2) x \<or> inWindow y (- 3) x) col)"
    using mset_filter_disj [of "inWindow y (- 2)" "inWindow y (- 3)" col, OF d12] by simp
  also have "\<dots> = mset (filter (inWindow y (- 1)) col @ filter (\<lambda>x. inWindow y (- 2) x \<or> inWindow y (- 3) x) col)"
    by simp
  also have "\<dots> = mset (filter (\<lambda>x. inWindow y (- 1) x \<or> (inWindow y (- 2) x \<or> inWindow y (- 3) x)) col)"
    by (rule mset_filter_disj) (rule d1)
  finally show ?thesis by (simp add: merge_def window_filter baselineYears_def)
qed

lemma PREmedian_eq:
  assumes wf: "\<forall>i\<in>set imgCol. bandNames i = allVariables" and ne: "baselineYears imgCol y \<noteq> []"
  shows "PREmedian imgCol y = Some \<lparr>bands = map (\<lambda>b. (b, median (unmasked b (baselineYears imgCol y)))) allVariables,
     time_start = None, inBounds = True\<rparr>"
proof -
  let ?M = "merge (window y (- 1) imgCol) (merge (window y (- 2) imgCol) (window y (- 3) imgCol))"
  have ms: "mset ?M = mset (baselineYears imgCol y)" by (rule baseline_mset)
  have "?M \<noteq> []" using ms ne by (metis mset_zero_iff)
  moreover have "\<forall>i\<in>set ?M. bandNames i = allVariables"
    using wf by (auto simp: merge_def window_filter)
  ultimately have "reduceCol median ?M = Some \<lparr>bands = map (\<lambda>b. (b, median (unmasked b ?M))) allVariables,
     time_start = None, inBounds = True\<rparr>"
    by (rule reduceCol_homog)
  moreover have "median (unmasked b ?M) = median (unmasked b (baselineYears imgCol y))" for b
    by (rule median_mset) (rule mset_unmasked [OF ms])
  ultimately show ?thesis by (simp add: PREmedian_def Let_def)
qed

lemma zip_map_fst:
  "zip xs (map (\<lambda>b. (b, P b)) (map fst xs)) = map (\<lambda>(n, v). ((n, v), (n, P n))) xs"
  by (induction xs) auto

lemma divide_homog:
  assumes a: "bandNames a = ns" and p: "bands pre = map (\<lambda>b. (b, P b)) ns" and l: "length ns \<noteq> 1"
  shows "divide a pre = Some (divImg P a)"
proof -
  have la: "length (bands a) = length ns" using a by (metis bandNames_def length_map)
  have lp: "length (bands pre) = length ns" by (simp add: p)
  have z: "zip (bands a) (bands pre) = map (\<lambda>(n, v). ((n, v), (n, P n))) (bands a)"
  proof -
    have "ns = map fst (bands a)" using a by (simp add: bandNames_def)
    then show ?thesis unfolding p by (simp only: zip_map_fst)
  qed
  have bp: "band pre n = Some (P n)" if "n \<in> set ns" for n
    using that by (simp add: band_def p map_of_const)
  have "map (\<lambda>((n, v), (m, w)).
            (n, lift2 (/) v (if set (bandNames a) = set (bandNames pre)
                             then (case band pre n of Some w' \<Rightarrow> w' | None \<Rightarrow> w) else w)))
          (zip (bands a) (bands pre))
      = map (\<lambda>(n, v). (n, lift2 (/) v (P n))) (bands a)"
    unfolding z map_map
  proof (rule map_cong [OF refl])
    fix x assume "x \<in> set (bands a)"
    then have "fst x \<in> set ns" using a by (auto simp: bandNames_def)
    from bp [OF this] show "((\<lambda>((n, v), (m, w)).
            (n, lift2 (/) v (if set (bandNames a) = set (bandNames pre)
                             then (case band pre n of Some w' \<Rightarrow> w' | None \<Rightarrow> w) else w)))
          \<circ> (\<lambda>(n, v). ((n, v), (n, P n)))) x = (case x of (n, v) \<Rightarrow> (n, lift2 (/) v (P n)))"
      by (cases x) simp
  qed
  then show ?thesis
    using l by (simp add: divide_def binop_def la lp divImg_def)
qed

lemma mapCol_map: "(\<forall>i\<in>set xs. f i = Some (g i)) \<Longrightarrow> mapCol f xs = Some (map g xs)"
  by (induction xs) auto

lemma TSdevDiv_eq:
  assumes wf: "\<forall>i\<in>set imgCol. bandNames i = allVariables"
    and p: "bands pre = map (\<lambda>b. (b, P b)) allVariables"
  shows "TSdevDiv imgCol pre = Some (map (divImg P) imgCol)"
proof -
  have l: "length allVariables \<noteq> 1" by (simp add: allVariables_def)
  have "map_option (\<lambda>d. copyProperties d IMG) (divide IMG pre) = Some (divImg P IMG)"
    if "IMG \<in> set imgCol" for IMG
    using divide_homog [OF _ p l, of IMG] wf that
    by (simp add: copyProperties_def divImg_def)
  then show ?thesis unfolding TSdevDiv_def by (intro mapCol_map) simp
qed

lemma window_map:
  assumes "\<And>i. time_start (g i) = time_start i"
  shows "window y k (map g col) = map g (window y k col)"
proof -
  have "inDates s e \<circ> g = inDates s e" for s e
    by (rule ext) (simp add: inDates_def assms)
  then show ?thesis by (simp add: window_def filterDate_def filter_map)
qed

lemma map_of_keyed:
  "map_of (map (\<lambda>(n, v). (n, f n v)) xs) b = map_option (f b) (map_of xs b)"
  by (induction xs) auto

lemma band_divImg: "band (divImg P i) b = map_option (\<lambda>v. lift2 (/) v (P b)) (band i b)"
  by (simp add: band_def divImg_def map_of_keyed)

lemma bandNames_divImg: "bandNames (divImg P i) = bandNames i"
  by (simp add: bandNames_def divImg_def comp_def case_prod_unfold)

lemma unmasked_divImg: "unmasked b (map (divImg P) W) = ratios b (P b) W"
proof (induction W)
  case Nil
  then show ?case by (simp add: unmasked_def ratios_def split: pixel.splits)
next
  case (Cons i W)
  have "unmasked b (map (divImg P) (i # W))
      = (case map_option (\<lambda>v. lift2 (/) v (P b)) (band i b) of Some (Val v) \<Rightarrow> [v] | _ \<Rightarrow> [])
        @ unmasked b (map (divImg P) W)"
    by (simp add: unmasked_def band_divImg)
  also have "\<dots> = ratios b (P b) (i # W)"
    unfolding Cons.IH
    by (cases "band i b"; cases "P b")
       (auto simp: ratios_def unmasked_def split: pixel.splits option.splits)
  finally show ?case .
qed

lemma minimum_pair:
  "minimum ((case p of Val v \<Rightarrow> [v] | Masked \<Rightarrow> []) @ (case q of Val v \<Rightarrow> [v] | Masked \<Rightarrow> []))
     = px_min p q"
  by (cases p; cases q) (simp_all add: minimum_def)

lemma bands_clip_map:
  "clip \<lparr>bands = map (\<lambda>b. (b, g b)) ns, time_start = t, inBounds = ib\<rparr> roi
     = \<lparr>bands = map (\<lambda>b. (b, px_clip roi (g b))) ns, time_start = t, inBounds = ib\<rparr>"
  by (simp add: clip_def mapBands_def comp_def)

lemma unmasked_pair:
  assumes "b \<in> set ns"
  shows "unmasked b [\<lparr>bands = map (\<lambda>b. (b, g b)) ns, time_start = t, inBounds = ib\<rparr>,
                     \<lparr>bands = map (\<lambda>b. (b, h b)) ns, time_start = t', inBounds = ib'\<rparr>]
     = (case g b of Val v \<Rightarrow> [v] | Masked \<Rightarrow> []) @ (case h b of Val v \<Rightarrow> [v] | Masked \<Rightarrow> [])"
  using assms by (simp add: unmasked_def band_map split: pixel.splits)

lemma time_start_divImg: "time_start (divImg P i) = time_start i"
  by (simp add: divImg_def)

text \<open>
  C7. Let every observation carry the 15 index bands, and let the three baseline years,
  the fire year and the year after each hold an observation. Then for each index band
  \<open>PREmedian\<close> is the median of the unmasked values over the observations of the three
  years before (each within its window from 15 June to 1 September), and \<open>divCol\<close> is
  the smaller of two values: the median, over the window of the year after and over the
  window of the fire year, of the observations' values divided by the baseline value.
\<close>

theorem deviation_baseline_and_ratio:
  assumes wf: "\<forall>i\<in>set imgCol. bandNames i = allVariables"
    and base: "baselineYears imgCol y \<noteq> []"
    and w1: "filter (inWindow y 1) imgCol \<noteq> []"
    and w0: "filter (inWindow y 0) imgCol \<noteq> []"
    and b: "b \<in> set allVariables"
  shows "\<exists>pre dc p. PREmedian imgCol y = Some pre \<and> band pre b = Some p
     \<and> p = median (unmasked b (baselineYears imgCol y))
     \<and> divCol imgCol y roi = Some dc
     \<and> band dc b = Some (px_min
          (px_clip roi (median (ratios b p (filter (inWindow y 1) imgCol))))
          (px_clip roi (median (ratios b p (filter (inWindow y 0) imgCol)))))"
proof -
  let ?P = "\<lambda>b. median (unmasked b (baselineYears imgCol y))"
  let ?pre = "\<lparr>bands = map (\<lambda>b. (b, ?P b)) allVariables, time_start = None, inBounds = True\<rparr>"
  let ?W1 = "filter (inWindow y 1) imgCol" and ?W0 = "filter (inWindow y 0) imgCol"
  let ?A = "\<lambda>b. median (ratios b (?P b) ?W1)" and ?B = "\<lambda>b. median (ratios b (?P b) ?W0)"
  let ?a = "\<lparr>bands = map (\<lambda>b. (b, ?A b)) allVariables, time_start = None, inBounds = True\<rparr>"
  let ?b = "\<lparr>bands = map (\<lambda>b. (b, ?B b)) allVariables, time_start = None, inBounds = True\<rparr>"
  let ?dc = "\<lparr>bands = map (\<lambda>b. (b, px_min (px_clip roi (?A b)) (px_clip roi (?B b)))) allVariables,
     time_start = None, inBounds = True\<rparr>"
  have pre: "PREmedian imgCol y = Some ?pre"
    by (rule PREmedian_eq [OF wf base])
  have ts: "TSdevDiv imgCol ?pre = Some (map (divImg ?P) imgCol)"
    by (rule TSdevDiv_eq [OF wf]) simp
  have win: "window y k (map (divImg ?P) imgCol) = map (divImg ?P) (filter (inWindow y k) imgCol)" for k
    by (subst window_map [OF time_start_divImg]) (simp only: window_filter)
  have red: "reduceCol median (map (divImg ?P) W)
      = Some \<lparr>bands = map (\<lambda>b. (b, median (ratios b (?P b) W))) allVariables,
          time_start = None, inBounds = True\<rparr>"
    if "W \<noteq> []" "set W \<subseteq> set imgCol" for W
  proof -
    have "map (divImg ?P) W \<noteq> []" using that(1) by simp
    moreover have "\<forall>i\<in>set (map (divImg ?P) W). bandNames i = allVariables"
      using that(2) wf by (auto simp: bandNames_divImg)
    ultimately show ?thesis
      using reduceCol_homog [of "map (divImg ?P) W" allVariables median]
      by (simp add: unmasked_divImg)
  qed
  have a: "reduceCol median (window y 1 (map (divImg ?P) imgCol)) = Some ?a"
    unfolding win by (rule red [OF w1]) auto
  have b': "reduceCol median (window y 0 (map (divImg ?P) imgCol)) = Some ?b"
    unfolding win by (rule red [OF w0]) auto
  have "reduceCol minimum [clip ?a roi, clip ?b roi]
      = Some \<lparr>bands = map (\<lambda>b. (b, minimum (unmasked b [clip ?a roi, clip ?b roi]))) allVariables,
          time_start = None, inBounds = True\<rparr>"
    by (rule reduceCol_homog) (simp_all add: bands_clip_map bandNames_def comp_def)
  moreover have "minimum (unmasked n [clip ?a roi, clip ?b roi])
      = px_min (px_clip roi (?A n)) (px_clip roi (?B n))" if "n \<in> set allVariables" for n
    unfolding bands_clip_map unmasked_pair [OF that] by (rule minimum_pair)
  ultimately have m: "reduceCol minimum [clip ?a roi, clip ?b roi] = Some ?dc"
    by (simp cong: map_cong)
  have dc: "divCol imgCol y roi = Some ?dc"
    by (simp add: divCol_def pre ts a b' m)
  have "band ?pre b = Some (?P b)" "band ?dc b = Some (px_min (px_clip roi (?A b)) (px_clip roi (?B b)))"
    using b by (simp_all add: band_map)
  with pre dc show ?thesis by blast
qed

lemma baseline_sample:
  "baselineYears deviation_col 2020
     = [observation 0.4 (2019, 7, 1), observation 0.2 (2018, 7, 10), observation 0.3 (2017, 8, 1)]"
  "filter (inWindow 2020 1) deviation_col = [observation 0.06 (2021, 7, 1)]"
  "filter (inWindow 2020 0) deviation_col = [observation 0.1 (2020, 7, 1)]"
  by (simp_all add: baselineYears_def deviation_col_def inWindow_def inDates_def observation_def
      date_less_def)

lemma sample_values:
  "median (unmasked ''nbr2'' [observation 0.4 (2019, 7, 1), observation 0.2 (2018, 7, 10),
      observation 0.3 (2017, 8, 1)]) = Val 0.3"
  "median (ratios ''nbr2'' (Val 0.3) [observation 0.06 (2021, 7, 1)]) = Val 0.2"
  "median (ratios ''nbr2'' (Val 0.3) [observation 0.1 (2020, 7, 1)]) = Val (1 / 3)"
  by (simp_all add: unmasked_Cons_observation allVariables_mem unmasked_Nil median_def Let_def
      ratios_def)

theorem deviation_baseline_and_ratio_witness:
  "\<exists>pre dc. PREmedian deviation_col 2020 = Some pre \<and> band pre ''nbr2'' = Some (Val 0.3)
     \<and> divCol deviation_col 2020 True = Some dc \<and> band dc ''nbr2'' = Some (Val 0.2)"
proof -
  have wf: "\<forall>i\<in>set deviation_col. bandNames i = allVariables"
    by (simp add: deviation_col_def bandNames_observation)
  have ne: "baselineYears deviation_col 2020 \<noteq> []" "filter (inWindow 2020 1) deviation_col \<noteq> []"
    "filter (inWindow 2020 0) deviation_col \<noteq> []"
    by (simp_all add: baseline_sample)
  from deviation_baseline_and_ratio [OF wf ne allVariables_mem(2), of True]
  obtain pre dc p where r: "PREmedian deviation_col 2020 = Some pre" "band pre ''nbr2'' = Some p"
    "p = median (unmasked ''nbr2'' (baselineYears deviation_col 2020))"
    "divCol deviation_col 2020 True = Some dc"
    "band dc ''nbr2'' = Some (px_min
          (px_clip True (median (ratios ''nbr2'' p (filter (inWindow 2020 1) deviation_col))))
          (px_clip True (median (ratios ''nbr2'' p (filter (inWindow 2020 0) deviation_col)))))"
    by blast
  have p: "p = Val 0.3"
    unfolding r(3) baseline_sample by (rule sample_values)
  have "band dc ''nbr2'' = Some (Val 0.2)"
    unfolding r(5) p baseline_sample sample_values by (simp add: px_clip_def)
  with r(1,2,4) p show ?thesis by blast
qed

end
